theory Spec2Isabelle
  imports Complex_Main
begin

section \<open>The bid-request validator: values of the host language\<close>

text \<open>
  The validator (\<^verbatim>\<open>bidRequestValidator.ts\<close>, the version with the \<^verbatim>\<open>EQ-*\<close> rules) works
  on the untyped tree that \<^verbatim>\<open>JSON.parse\<close> returns. The tree is modelled by \<open>jsval\<close>. A
  property read, a method call and a coercion behave on such a tree as ECMAScript
  defines them: reading a property of \<^verbatim>\<open>null\<close> or \<^verbatim>\<open>undefined\<close> throws, calling a
  method the receiver does not have throws, and a coercion to a string or a number
  follows \<^verbatim>\<open>ToPrimitive\<close>. Every throw is a value \<open>Inl e\<close> of the model.

  Numbers are exact: a finite number is a rational, the two infinities and NaN are
  separate values. The rounding of IEEE doubles and the sign of zero are not modelled.
  Strings are lists of 8-bit characters.
\<close>

datatype number = Fin rat | PosInf | NegInf | NaN

datatype jsval =
    Undefined
  | Null
  | Bool bool
  | Num number
  | Str string
  | Arr "jsval list"
  | Obj "(string \<times> jsval) list"
  | Fn string

text \<open>
  \<open>Obj\<close> holds the own properties in enumeration order, \<open>Fn name\<close> is a built-in
  function object: it appears only when a property name of the payload is also the
  name of an inherited method (\<^verbatim>\<open>[].at\<close>, \<^verbatim>\<open>({}).constructor\<close>).
\<close>

datatype thrown = TypeError | InvalidJSONFormat

text \<open>
  What the validator takes from the platform and does not define itself. \<open>JSON_parse\<close>
  is \<^verbatim>\<open>JSON.parse\<close> (\<open>None\<close>: it threw a SyntaxError), \<open>URL_ok s\<close> says that
  \<^verbatim>\<open>new URL(s)\<close> does not throw, \<open>NumberToString\<close> is \<^verbatim>\<open>Number::toString\<close> where the
  model does not compute it (a finite number that is not an integer of magnitude at
  most \<open>2^53\<close>), \<open>StringToNumber\<close> is \<^verbatim>\<open>ToNumber\<close> on a string, and \<open>FunctionToString\<close>
  is the text of a built-in function.
\<close>

record engine =
  JSON_parse :: "string \<Rightarrow> jsval option"
  URL_ok :: "string \<Rightarrow> bool"
  NumberToString :: "rat \<Rightarrow> string"
  StringToNumber :: "string \<Rightarrow> number"
  FunctionToString :: "string \<Rightarrow> string"

subsection \<open>Sequencing of computations that may throw\<close>

fun seqE :: "(thrown + 'a list) list \<Rightarrow> thrown + 'a list" where
  "seqE [] = Inr []"
| "seqE (r # rs) =
     (case r of
        Inl e \<Rightarrow> Inl e
      | Inr xs \<Rightarrow> (case seqE rs of Inl e \<Rightarrow> Inl e | Inr ys \<Rightarrow> Inr (xs @ ys)))"

definition bindE :: "thrown + 'a \<Rightarrow> ('a \<Rightarrow> thrown + 'b) \<Rightarrow> thrown + 'b" where
  "bindE m f = (case m of Inl e \<Rightarrow> Inl e | Inr x \<Rightarrow> f x)"

subsection \<open>Decimal digits\<close>

definition digitChar :: "nat \<Rightarrow> char" where
  "digitChar d = char_of (48 + d)"

fun digits :: "nat \<Rightarrow> string" where
  "digits n = (if n < 10 then [digitChar n] else digits (n div 10) @ [digitChar (n mod 10)])"

declare digits.simps [simp del]

subsection \<open>Truthiness, type tests, property reads\<close>

fun truthy :: "jsval \<Rightarrow> bool" where
  "truthy Undefined = False"
| "truthy Null = False"
| "truthy (Bool b) = b"
| "truthy (Num (Fin r)) = (r \<noteq> 0)"
| "truthy (Num NaN) = False"
| "truthy (Num PosInf) = True"
| "truthy (Num NegInf) = True"
| "truthy (Str s) = (s \<noteq> [])"
| "truthy (Arr xs) = True"
| "truthy (Obj ps) = True"
| "truthy (Fn f) = True"

fun nullish :: "jsval \<Rightarrow> bool" where
  "nullish Undefined = True"
| "nullish Null = True"
| "nullish v = False"

fun isString :: "jsval \<Rightarrow> bool" where
  "isString (Str s) = True"
| "isString v = False"

fun isNumber :: "jsval \<Rightarrow> bool" where
  "isNumber (Num n) = True"
| "isNumber v = False"

fun isArray :: "jsval \<Rightarrow> bool" where
  "isArray (Arr xs) = True"
| "isArray v = False"

fun elems :: "jsval \<Rightarrow> jsval list" where
  "elems (Arr xs) = xs"
| "elems v = []"

fun strOf :: "jsval \<Rightarrow> string" where
  "strOf (Str s) = s"
| "strOf v = []"

fun numOf :: "jsval \<Rightarrow> number" where
  "numOf (Num n) = n"
| "numOf v = NaN"

text \<open>\<^verbatim>\<open>Number.isInteger\<close>.\<close>

fun isInteger :: "jsval \<Rightarrow> bool" where
  "isInteger (Num (Fin r)) = (of_int \<lfloor>r\<rfloor> = r)"
| "isInteger v = False"

definition objectPrototype :: "string list" where
  "objectPrototype =
     [''constructor'', ''hasOwnProperty'', ''isPrototypeOf'', ''propertyIsEnumerable'',
      ''toLocaleString'', ''toString'', ''valueOf'', ''__defineGetter__'',
      ''__defineSetter__'', ''__lookupGetter__'', ''__lookupSetter__'']"

definition arrayPrototype :: "string list" where
  "arrayPrototype =
     [''at'', ''concat'', ''copyWithin'', ''entries'', ''every'', ''fill'', ''filter'',
      ''find'', ''findIndex'', ''findLast'', ''findLastIndex'', ''flat'', ''flatMap'',
      ''forEach'', ''includes'', ''indexOf'', ''join'', ''keys'', ''lastIndexOf'', ''map'',
      ''pop'', ''push'', ''reduce'', ''reduceRight'', ''reverse'', ''shift'', ''slice'',
      ''some'', ''sort'', ''splice'', ''toReversed'', ''toSorted'', ''toSpliced'',
      ''unshift'', ''values'', ''with'']"

definition stringPrototype :: "string list" where
  "stringPrototype =
     [''anchor'', ''at'', ''big'', ''blink'', ''bold'', ''charAt'', ''charCodeAt'',
      ''codePointAt'', ''concat'', ''endsWith'', ''fixed'', ''fontcolor'', ''fontsize'',
      ''includes'', ''indexOf'', ''isWellFormed'', ''italics'', ''lastIndexOf'', ''link'',
      ''localeCompare'', ''match'', ''matchAll'', ''normalize'', ''padEnd'', ''padStart'',
      ''repeat'', ''replace'', ''replaceAll'', ''search'', ''slice'', ''small'', ''split'',
      ''startsWith'', ''strike'', ''sub'', ''substr'', ''substring'', ''sup'',
      ''toLocaleLowerCase'', ''toLocaleUpperCase'', ''toLowerCase'', ''toUpperCase'',
      ''toWellFormed'', ''trim'', ''trimEnd'', ''trimLeft'', ''trimRight'', ''trimStart'']"

definition numberPrototype :: "string list" where
  "numberPrototype = [''toExponential'', ''toFixed'', ''toPrecision'']"

definition functionPrototype :: "string list" where
  "functionPrototype = [''apply'', ''bind'', ''call'']"

text \<open>
  \<open>inherited ms k\<close>: the value of property \<open>k\<close> found on a prototype chain whose
  methods are \<open>ms\<close> followed by those of \<^verbatim>\<open>Object.prototype\<close>. The accessor
  \<^verbatim>\<open>__proto__\<close> answers the prototype object, which has no enumerable property.
\<close>

definition inherited :: "string list \<Rightarrow> string \<Rightarrow> jsval" where
  "inherited ms k =
     (if k \<in> set ms \<or> k \<in> set objectPrototype then Fn k
      else if k = ''__proto__'' then Obj []
      else Undefined)"

text \<open>
  \<open>propOf v k\<close> is \<^verbatim>\<open>v.k\<close> for a receiver that is neither \<^verbatim>\<open>null\<close> nor \<^verbatim>\<open>undefined\<close>
  (for these two \<open>get\<close> throws and \<open>getq\<close>, the optional chain \<^verbatim>\<open>v?.k\<close>, answers
  \<^verbatim>\<open>undefined\<close>). The own properties of a function object are not modelled: no rule
  reads one.
\<close>

fun propOf :: "jsval \<Rightarrow> string \<Rightarrow> jsval" where
  "propOf (Obj ps) k = (case map_of ps k of Some v \<Rightarrow> v | None \<Rightarrow> inherited [] k)"
| "propOf (Arr xs) k =
     (if k = ''length'' then Num (Fin (of_nat (length xs)))
      else case filter (\<lambda>i. digits i = k) [0..<length xs] of
             i # _ \<Rightarrow> xs ! i
           | [] \<Rightarrow> inherited arrayPrototype k)"
| "propOf (Str s) k =
     (if k = ''length'' then Num (Fin (of_nat (length s)))
      else case filter (\<lambda>i. digits i = k) [0..<length s] of
             i # _ \<Rightarrow> Str [s ! i]
           | [] \<Rightarrow> inherited stringPrototype k)"
| "propOf (Num n) k = inherited numberPrototype k"
| "propOf (Bool b) k = inherited [] k"
| "propOf (Fn f) k = inherited functionPrototype k"
| "propOf Undefined k = Undefined"
| "propOf Null k = Undefined"

definition get :: "jsval \<Rightarrow> string \<Rightarrow> thrown + jsval" where
  "get v k = (if nullish v then Inl TypeError else Inr (propOf v k))"

definition getq :: "jsval \<Rightarrow> string \<Rightarrow> jsval" where
  "getq v k = (if nullish v then Undefined else propOf v k)"

subsection \<open>Coercions\<close>

text \<open>
  \<^verbatim>\<open>Number::toString\<close>, computed for the integers that a double holds exactly and
  delegated to the platform otherwise.
\<close>

definition numberToString :: "engine \<Rightarrow> number \<Rightarrow> string" where
  "numberToString E n =
     (case n of
        NaN \<Rightarrow> ''NaN''
      | PosInf \<Rightarrow> ''Infinity''
      | NegInf \<Rightarrow> ''-Infinity''
      | Fin r \<Rightarrow>
          if of_int \<lfloor>r\<rfloor> = r \<and> \<bar>r\<bar> \<le> 9007199254740992
          then (if r < 0 then ''-'' else []) @ digits (nat \<bar>\<lfloor>r\<rfloor>\<bar>)
          else NumberToString E r)"

fun joinE :: "string \<Rightarrow> (thrown + string) list \<Rightarrow> thrown + string" where
  "joinE sep [] = Inr []"
| "joinE sep [r] = r"
| "joinE sep (r # rs) =
     (case r of
        Inl e \<Rightarrow> Inl e
      | Inr x \<Rightarrow> (case joinE sep rs of Inl e \<Rightarrow> Inl e | Inr y \<Rightarrow> Inr (x @ sep @ y)))"

text \<open>
  \<^verbatim>\<open>ToString\<close>. An array is joined with commas, \<^verbatim>\<open>null\<close> and \<^verbatim>\<open>undefined\<close> elements
  giving the empty string. A parsed object answers \<^verbatim>\<open>[object Object]\<close> through the
  inherited \<^verbatim>\<open>toString\<close>; when it has an own property of that name, the property is
  not callable, \<^verbatim>\<open>valueOf\<close> yields no primitive either, and the conversion throws.
\<close>

fun ToString :: "engine \<Rightarrow> jsval \<Rightarrow> thrown + string" where
  "ToString E Undefined = Inr ''undefined''"
| "ToString E Null = Inr ''null''"
| "ToString E (Bool b) = Inr (if b then ''true'' else ''false'')"
| "ToString E (Num n) = Inr (numberToString E n)"
| "ToString E (Str s) = Inr s"
| "ToString E (Arr xs) =
     joinE '','' (map (\<lambda>x. if x = Undefined \<or> x = Null then Inr [] else ToString E x) xs)"
| "ToString E (Obj ps) =
     (if ''toString'' \<in> fst ` set ps then Inl TypeError else Inr ''[object Object]'')"
| "ToString E (Fn f) = Inr (FunctionToString E f)"

text \<open>\<^verbatim>\<open>ToPrimitive\<close>: for the values of a parsed tree every hint gives the same result.\<close>

fun ToPrimitive :: "engine \<Rightarrow> jsval \<Rightarrow> thrown + jsval" where
  "ToPrimitive E (Arr xs) = bindE (ToString E (Arr xs)) (\<lambda>s. Inr (Str s))"
| "ToPrimitive E (Obj ps) = bindE (ToString E (Obj ps)) (\<lambda>s. Inr (Str s))"
| "ToPrimitive E (Fn f) = Inr (Str (FunctionToString E f))"
| "ToPrimitive E v = Inr v"

fun primToNumber :: "engine \<Rightarrow> jsval \<Rightarrow> number" where
  "primToNumber E Undefined = NaN"
| "primToNumber E Null = Fin 0"
| "primToNumber E (Bool b) = (if b then Fin 1 else Fin 0)"
| "primToNumber E (Num n) = n"
| "primToNumber E (Str s) = StringToNumber E s"
| "primToNumber E v = NaN"

definition ToNumber :: "engine \<Rightarrow> jsval \<Rightarrow> thrown + number" where
  "ToNumber E v = bindE (ToPrimitive E v) (\<lambda>p. Inr (primToNumber E p))"

subsection \<open>Arithmetic and comparison\<close>

fun num_neg :: "number \<Rightarrow> number" where
  "num_neg (Fin a) = Fin (- a)"
| "num_neg PosInf = NegInf"
| "num_neg NegInf = PosInf"
| "num_neg NaN = NaN"

fun num_add :: "number \<Rightarrow> number \<Rightarrow> number" where
  "num_add (Fin a) (Fin b) = Fin (a + b)"
| "num_add NaN y = NaN"
| "num_add x NaN = NaN"
| "num_add PosInf NegInf = NaN"
| "num_add NegInf PosInf = NaN"
| "num_add PosInf y = PosInf"
| "num_add NegInf y = NegInf"
| "num_add x PosInf = PosInf"
| "num_add x NegInf = NegInf"

definition num_sub :: "number \<Rightarrow> number \<Rightarrow> number" where
  "num_sub x y = num_add x (num_neg y)"

fun num_sign :: "number \<Rightarrow> int" where
  "num_sign (Fin a) = (if a < 0 then - 1 else 1)"
| "num_sign PosInf = 1"
| "num_sign NegInf = - 1"
| "num_sign NaN = 1"

fun num_div :: "number \<Rightarrow> number \<Rightarrow> number" where
  "num_div NaN y = NaN"
| "num_div x NaN = NaN"
| "num_div (Fin a) (Fin b) =
     (if b = 0 then (if a = 0 then NaN else if 0 < a then PosInf else NegInf)
      else Fin (a / b))"
| "num_div (Fin a) y = Fin 0"
| "num_div x (Fin b) = (if num_sign x * num_sign (Fin b) < 0 then NegInf else PosInf)"
| "num_div x y = NaN"

fun num_abs :: "number \<Rightarrow> number" where
  "num_abs (Fin a) = Fin \<bar>a\<bar>"
| "num_abs PosInf = PosInf"
| "num_abs NegInf = PosInf"
| "num_abs NaN = NaN"

text \<open>\<open>num_lt x y\<close> is \<open>None\<close> where the comparison is undefined (a NaN operand).\<close>

fun num_lt :: "number \<Rightarrow> number \<Rightarrow> bool option" where
  "num_lt NaN y = None"
| "num_lt x NaN = None"
| "num_lt (Fin a) (Fin b) = Some (a < b)"
| "num_lt PosInf y = Some False"
| "num_lt x PosInf = Some True"
| "num_lt x NegInf = Some False"
| "num_lt NegInf y = Some True"

fun strLess :: "string \<Rightarrow> string \<Rightarrow> bool" where
  "strLess [] [] = False"
| "strLess [] (y # ys) = True"
| "strLess (x # xs) [] = False"
| "strLess (x # xs) (y # ys) =
     (if x = y then strLess xs ys else (of_char x :: nat) < of_char y)"

text \<open>The comparison of two primitives: both strings, or both taken as numbers.\<close>

fun primLess :: "engine \<Rightarrow> jsval \<Rightarrow> jsval \<Rightarrow> bool option" where
  "primLess E (Str a) (Str b) = Some (strLess a b)"
| "primLess E a b = num_lt (primToNumber E a) (primToNumber E b)"

text \<open>\<^verbatim>\<open>a < b\<close>, \<^verbatim>\<open>a <= b\<close> and \<^verbatim>\<open>a - b\<close>, \<^verbatim>\<open>a / b\<close>, \<^verbatim>\<open>a + b\<close> on any two values.\<close>

definition js_lt :: "engine \<Rightarrow> jsval \<Rightarrow> jsval \<Rightarrow> thrown + bool" where
  "js_lt E a b =
     bindE (ToPrimitive E a) (\<lambda>pa. bindE (ToPrimitive E b) (\<lambda>pb.
       Inr (primLess E pa pb = Some True)))"

definition js_le :: "engine \<Rightarrow> jsval \<Rightarrow> jsval \<Rightarrow> thrown + bool" where
  "js_le E a b =
     bindE (ToPrimitive E a) (\<lambda>pa. bindE (ToPrimitive E b) (\<lambda>pb.
       Inr (primLess E pb pa = Some False)))"

definition js_sub :: "engine \<Rightarrow> jsval \<Rightarrow> jsval \<Rightarrow> thrown + number" where
  "js_sub E a b =
     bindE (ToNumber E a) (\<lambda>x. bindE (ToNumber E b) (\<lambda>y. Inr (num_sub x y)))"

definition js_div :: "engine \<Rightarrow> jsval \<Rightarrow> jsval \<Rightarrow> thrown + number" where
  "js_div E a b =
     bindE (ToNumber E a) (\<lambda>x. bindE (ToNumber E b) (\<lambda>y. Inr (num_div x y)))"

definition js_add :: "engine \<Rightarrow> jsval \<Rightarrow> jsval \<Rightarrow> thrown + jsval" where
  "js_add E a b =
     bindE (ToPrimitive E a) (\<lambda>pa. bindE (ToPrimitive E b) (\<lambda>pb.
       if isString pa \<or> isString pb
       then bindE (ToString E pa) (\<lambda>sa. bindE (ToString E pb) (\<lambda>sb. Inr (Str (sa @ sb))))
       else Inr (Num (num_add (primToNumber E pa) (primToNumber E pb)))))"

text \<open>
  \<^verbatim>\<open>Number.prototype.toFixed\<close>: the magnitude is rounded to \<open>f\<close> decimals, a tie going
  up, and written with at least one digit before the point.
\<close>

definition toFixed :: "engine \<Rightarrow> number \<Rightarrow> nat \<Rightarrow> string" where
  "toFixed E n f =
     (case n of
        Fin r \<Rightarrow>
          if 10 ^ 21 \<le> \<bar>r\<bar> then numberToString E n
          else
            (let m = digits (nat \<lfloor>\<bar>r\<bar> * 10 ^ f + 1 / 2\<rfloor>);
                 padded = replicate (Suc f - length m) CHR ''0'' @ m;
                 k = length padded - f
             in (if r < 0 then ''-'' else [])
                @ take k padded @ (if f = 0 then [] else ''.'' @ drop k padded))
      | _ \<Rightarrow> numberToString E n)"

subsection \<open>Strings and arrays\<close>

definition strIncludes :: "string \<Rightarrow> string \<Rightarrow> bool" where
  "strIncludes s sub = list_ex (\<lambda>i. take (length sub) (drop i s) = sub) [0..<Suc (length s)]"

definition strEndsWith :: "string \<Rightarrow> string \<Rightarrow> bool" where
  "strEndsWith s sub = (length sub \<le> length s \<and> drop (length s - length sub) s = sub)"

definition isWhiteSpace :: "char \<Rightarrow> bool" where
  "isWhiteSpace c =
     (c \<in> set [CHR 0x09, CHR 0x0A, CHR 0x0B, CHR 0x0C, CHR 0x0D, CHR 0x20, CHR 0xA0])"

definition trim :: "string \<Rightarrow> string" where
  "trim s = rev (dropWhile isWhiteSpace (rev (dropWhile isWhiteSpace s)))"

fun join :: "string \<Rightarrow> string list \<Rightarrow> string" where
  "join sep [] = []"
| "join sep [x] = x"
| "join sep (x # xs) = x @ sep @ join sep xs"

text \<open>
  \<^verbatim>\<open>recv.includes(arg)\<close>: an array looks for an equal element, a string for the
  argument's text as a substring, and any other receiver has no such method.
\<close>

fun js_includes :: "engine \<Rightarrow> jsval \<Rightarrow> jsval \<Rightarrow> thrown + bool" where
  "js_includes E (Arr xs) arg = Inr (arg \<in> set xs)"
| "js_includes E (Str s) arg = bindE (ToString E arg) (\<lambda>a. Inr (strIncludes s a))"
| "js_includes E v arg = Inl TypeError"

text \<open>\<^verbatim>\<open>recv.forEach(f)\<close> with the callback's issues collected in order.\<close>

fun forEachFrom :: "nat \<Rightarrow> 'a list \<Rightarrow> ('a \<Rightarrow> nat \<Rightarrow> thrown + 'b list) \<Rightarrow> thrown + 'b list" where
  "forEachFrom i [] f = Inr []"
| "forEachFrom i (x # xs) f =
     (case f x i of
        Inl e \<Rightarrow> Inl e
      | Inr ys \<Rightarrow> (case forEachFrom (Suc i) xs f of Inl e \<Rightarrow> Inl e | Inr zs \<Rightarrow> Inr (ys @ zs)))"

fun forEach :: "jsval \<Rightarrow> (jsval \<Rightarrow> nat \<Rightarrow> thrown + 'b list) \<Rightarrow> thrown + 'b list" where
  "forEach (Arr xs) f = forEachFrom 0 xs f"
| "forEach v f = Inl TypeError"

text \<open>\<^verbatim>\<open>recv.some(p)\<close>, \<^verbatim>\<open>recv.filter(p)\<close>: the predicate may throw, \<^verbatim>\<open>some\<close> stops at
  the first element that satisfies it.\<close>

fun someE :: "('a \<Rightarrow> thrown + bool) \<Rightarrow> 'a list \<Rightarrow> thrown + bool" where
  "someE p [] = Inr False"
| "someE p (x # xs) =
     (case p x of Inl e \<Rightarrow> Inl e | Inr b \<Rightarrow> if b then Inr True else someE p xs)"

fun filterE :: "('a \<Rightarrow> thrown + bool) \<Rightarrow> 'a list \<Rightarrow> thrown + 'a list" where
  "filterE p [] = Inr []"
| "filterE p (x # xs) =
     (case p x of
        Inl e \<Rightarrow> Inl e
      | Inr b \<Rightarrow> (case filterE p xs of
                   Inl e \<Rightarrow> Inl e
                 | Inr ys \<Rightarrow> Inr (if b then x # ys else ys)))"

fun some :: "jsval \<Rightarrow> (jsval \<Rightarrow> thrown + bool) \<Rightarrow> thrown + bool" where
  "some (Arr xs) p = someE p xs"
| "some v p = Inl TypeError"

section \<open>Regular expressions\<close>

text \<open>
  A pattern is a syntax tree, and matching is the backtracking search of ECMAScript:
  \<open>ms r st\<close> lists the states in which \<open>r\<close> can end when started in \<open>st\<close>, in the
  order in which backtracking tries them, so the head of the list is the match that
  the engine reports. A state is the position in the input, the input that remains
  and the captures made so far. \<open>Rep m n r\<close> is the greedy quantifier \<^verbatim>\<open>{m,n}\<close>
  (\<open>None\<close> for no upper bound).
\<close>

type_synonym captures = "(nat \<times> string) list"
type_synonym mstate = "nat \<times> string \<times> captures"

datatype rx =
    Bol
  | Eol
  | Lit string
  | OneOf "(char \<times> char) list"
  | Dot
  | Seq "rx list"
  | Alt "rx list"
  | Rep nat "nat option" rx
  | Grp nat rx

abbreviation Star :: "rx \<Rightarrow> rx" where "Star r \<equiv> Rep 0 None r"
abbreviation Plus :: "rx \<Rightarrow> rx" where "Plus r \<equiv> Rep 1 None r"
abbreviation Opt :: "rx \<Rightarrow> rx" where "Opt r \<equiv> Rep 0 (Some 1) r"

definition inRanges :: "(char \<times> char) list \<Rightarrow> char \<Rightarrow> bool" where
  "inRanges rs c =
     list_ex (\<lambda>(lo, hi). (of_char lo :: nat) \<le> of_char c \<and> (of_char c :: nat) \<le> of_char hi) rs"

definition isLineTerminator :: "char \<Rightarrow> bool" where
  "isLineTerminator c = (c = CHR 0x0A \<or> c = CHR 0x0D)"

text \<open>
  The quantifier. An iteration that consumes nothing is rejected once the minimum is
  reached, so \<open>mn + length inp\<close> iterations are all that can happen and the fuel never
  runs out before the search does.
\<close>

fun rep :: "(mstate \<Rightarrow> mstate list) \<Rightarrow> nat \<Rightarrow> nat \<Rightarrow> nat option \<Rightarrow> mstate \<Rightarrow> mstate list" where
  "rep f fuel mn mx s =
     (if mx = Some 0 then [s]
      else case fuel of
        0 \<Rightarrow> (if mn = 0 then [s] else [])
      | Suc k \<Rightarrow>
          concat (map (rep f k (mn - 1) (map_option (\<lambda>n. n - 1) mx))
                      (filter (\<lambda>s'. 0 < mn \<or> fst s < fst s') (f s)))
          @ (if mn = 0 then [s] else []))"

fun ms :: "rx \<Rightarrow> mstate \<Rightarrow> mstate list" where
  "ms Bol (p, inp, cs) = (if p = 0 then [(p, inp, cs)] else [])"
| "ms Eol (p, inp, cs) = (if inp = [] then [(p, inp, cs)] else [])"
| "ms (Lit l) (p, inp, cs) =
     (if take (length l) inp = l then [(p + length l, drop (length l) inp, cs)] else [])"
| "ms (OneOf rs) (p, inp, cs) =
     (case inp of [] \<Rightarrow> [] | c # r \<Rightarrow> if inRanges rs c then [(Suc p, r, cs)] else [])"
| "ms Dot (p, inp, cs) =
     (case inp of [] \<Rightarrow> [] | c # r \<Rightarrow> if isLineTerminator c then [] else [(Suc p, r, cs)])"
| "ms (Seq rs) s = foldl (\<lambda>sts r. concat (map (ms r) sts)) [s] rs"
| "ms (Alt rs) s = concat (map (\<lambda>r. ms r s) rs)"
| "ms (Rep mn mx r) (p, inp, cs) = rep (ms r) (mn + length inp) mn mx (p, inp, cs)"
| "ms (Grp i r) (p, inp, cs) =
     map (\<lambda>(p', inp', cs'). (p', inp', (i, take (p' - p) inp) # cs')) (ms r (p, inp, cs))"

text \<open>A match: where it starts, where it ends, and its captures.\<close>

type_synonym rmatch = "nat \<times> nat \<times> captures"

definition matchAt :: "rx \<Rightarrow> string \<Rightarrow> nat \<Rightarrow> rmatch option" where
  "matchAt r s i =
     (case ms r (i, drop i s, []) of [] \<Rightarrow> None | (e, rest, cs) # _ \<Rightarrow> Some (i, e, cs))"

fun firstMatch :: "rx \<Rightarrow> string \<Rightarrow> nat list \<Rightarrow> rmatch option" where
  "firstMatch r s [] = None"
| "firstMatch r s (i # is) =
     (case matchAt r s i of Some m \<Rightarrow> Some m | None \<Rightarrow> firstMatch r s is)"

text \<open>
  A \<^verbatim>\<open>RegExp\<close> object: the text of its pattern, the pattern, the \<^verbatim>\<open>g\<close> flag and the
  mutable \<^verbatim>\<open>lastIndex\<close>. \<open>RegExp_exec\<close> is \<^verbatim>\<open>RegExpBuiltinExec\<close>: only an object with the
  \<^verbatim>\<open>g\<close> flag starts at \<^verbatim>\<open>lastIndex\<close> and writes it. The object after the call is
  returned with the result.
\<close>

record RegExp =
  source :: string
  matcher :: rx
  global :: bool
  lastIndex :: nat

definition RegExp_exec :: "RegExp \<Rightarrow> string \<Rightarrow> rmatch option \<times> RegExp" where
  "RegExp_exec R s =
     (let li = (if global R then lastIndex R else 0)
      in if length s < li then (None, if global R then R\<lparr>lastIndex := 0\<rparr> else R)
         else case firstMatch (matcher R) s [li..<Suc (length s)] of
                None \<Rightarrow> (None, if global R then R\<lparr>lastIndex := 0\<rparr> else R)
              | Some (i, e, cs) \<Rightarrow>
                  (Some (i, e, cs), if global R then R\<lparr>lastIndex := e\<rparr> else R))"

text \<open>\<^verbatim>\<open>R.test(s)\<close>.\<close>

definition RegExp_test :: "RegExp \<Rightarrow> string \<Rightarrow> bool \<times> RegExp" where
  "RegExp_test R s = (case RegExp_exec R s of (m, R') \<Rightarrow> (m \<noteq> None, R'))"

text \<open>
  \<^verbatim>\<open>s.match(R)\<close> for a pattern with the \<^verbatim>\<open>g\<close> flag: every match from the start of
  the string, as the list of matched texts (the empty list stands for \<^verbatim>\<open>null\<close>).
  For a pattern without the flag \<^verbatim>\<open>s.match(R)\<close> is \<open>RegExp_exec R s\<close>.
\<close>

fun matchLoop :: "nat \<Rightarrow> RegExp \<Rightarrow> string \<Rightarrow> string list \<times> RegExp" where
  "matchLoop 0 R s = ([], R)"
| "matchLoop (Suc k) R s =
     (case RegExp_exec R s of
        (None, R') \<Rightarrow> ([], R')
      | (Some (i, e, cs), R') \<Rightarrow>
          (case matchLoop k (if e = i then R'\<lparr>lastIndex := Suc (lastIndex R')\<rparr> else R') s of
             (found, R'') \<Rightarrow> (take (e - i) (drop i s) # found, R'')))"

definition String_match_global :: "string \<Rightarrow> RegExp \<Rightarrow> string list \<times> RegExp" where
  "String_match_global s R = matchLoop (length s + 2) (R\<lparr>lastIndex := 0\<rparr>) s"

subsection \<open>The patterns of the validator\<close>

abbreviation digit :: rx where "digit \<equiv> OneOf [(CHR ''0'', CHR ''9'')]"

definition BS :: string where
  "BS = [CHR 0x5C]"

definition alnum :: rx where
  "alnum = OneOf [(CHR ''a'', CHR ''z''), (CHR ''A'', CHR ''Z''), (CHR ''0'', CHR ''9'')]"

text \<open>\<^verbatim>\<open>/\[[\w_]+\]|\{[\w_]+\}/g\<close>, created anew by each evaluation of the literal.\<close>

definition wordChar :: rx where
  "wordChar = OneOf [(CHR ''a'', CHR ''z''), (CHR ''A'', CHR ''Z''), (CHR ''0'', CHR ''9''),
                     (CHR ''_'', CHR ''_'')]"

definition macroPattern :: RegExp where
  "macroPattern =
     \<lparr> source = BS @ ''['' @ ''['' @ BS @ ''w_]+'' @ BS @ '']|'' @ BS @ ''{['' @ BS @ ''w_]+'' @ BS @ ''}'',
       matcher = Alt [Seq [Lit ''['', Plus wordChar, Lit '']''],
                      Seq [Lit ''{'', Plus wordChar, Lit ''}'']],
       global = True,
       lastIndex = 0 \<rparr>"

definition containsMacros :: "string \<Rightarrow> bool" where
  "containsMacros text = fst (RegExp_test macroPattern text)"

text \<open>
  The table \<^verbatim>\<open>STORE_URL_PATTERNS\<close>, in the order in which \<^verbatim>\<open>Object.entries\<close> lists it.
  Its \<^verbatim>\<open>RegExp\<close> objects are created once, when the module is loaded, and shared by
  every call: the table is the one piece of state that outlives a validation. None of
  its patterns has the \<^verbatim>\<open>g\<close> flag.
\<close>

record StoreConfig =
  patterns :: "RegExp list"
  bundlePattern :: RegExp
  platform :: string

definition regex :: "string \<Rightarrow> rx \<Rightarrow> RegExp" where
  "regex src r = \<lparr> source = src, matcher = r, global = False, lastIndex = 0 \<rparr>"

definition store_ios :: StoreConfig where
  "store_ios =
     \<lparr> patterns =
         [regex
            (''^https:'' @ BS @ ''/'' @ BS @ ''/apps'' @ BS @ ''.apple'' @ BS @ ''.com'' @ BS @ ''/.*'' @ BS @ ''/app'' @ BS @ ''/.*'' @ BS @ ''/id('' @ BS @ ''d+)$'')
            (Seq [Bol, Lit ''https://apps.apple.com/'', Star Dot, Lit ''/app/'', Star Dot, Lit ''/id'', Grp 1 (Plus digit), Eol]),
          regex
            (''^https:'' @ BS @ ''/'' @ BS @ ''/apps'' @ BS @ ''.apple'' @ BS @ ''.com'' @ BS @ ''/app'' @ BS @ ''/id('' @ BS @ ''d+)$'')
            (Seq [Bol, Lit ''https://apps.apple.com/app/id'', Grp 1 (Plus digit), Eol]),
          regex
            (''^https:'' @ BS @ ''/'' @ BS @ ''/apps'' @ BS @ ''.apple'' @ BS @ ''.com'' @ BS @ ''/us'' @ BS @ ''/app'' @ BS @ ''/id('' @ BS @ ''d+)$'')
            (Seq [Bol, Lit ''https://apps.apple.com/us/app/id'', Grp 1 (Plus digit), Eol])],
       bundlePattern =
         regex
           (''^'' @ BS @ ''d+$'')
           (Seq [Bol, Plus digit, Eol]),
       platform = ''iOS/tvOS'' \<rparr>"

definition store_android :: StoreConfig where
  "store_android =
     \<lparr> patterns =
         [regex
            (''^https:'' @ BS @ ''/'' @ BS @ ''/play'' @ BS @ ''.google'' @ BS @ ''.com'' @ BS @ ''/store'' @ BS @ ''/apps'' @ BS @ ''/details'' @ BS @ ''?id=([a-zA-Z0-9._]+)$'')
            (Seq [Bol, Lit ''https://play.google.com/store/apps/details?id='', Grp 1 (Plus (OneOf [(CHR ''a'', CHR ''z''), (CHR ''A'', CHR ''Z''), (CHR ''0'', CHR ''9''), (CHR ''.'', CHR ''.''), (CHR ''_'', CHR ''_'')])), Eol])],
       bundlePattern =
         regex
           (''^[a-zA-Z0-9._]+$'')
           (Seq [Bol, Plus (OneOf [(CHR ''a'', CHR ''z''), (CHR ''A'', CHR ''Z''), (CHR ''0'', CHR ''9''), (CHR ''.'', CHR ''.''), (CHR ''_'', CHR ''_'')]), Eol]),
       platform = ''Android/AndroidTV'' \<rparr>"

definition store_roku :: StoreConfig where
  "store_roku =
     \<lparr> patterns =
         [regex
            (''^https:'' @ BS @ ''/'' @ BS @ ''/channelstore'' @ BS @ ''.roku'' @ BS @ ''.com'' @ BS @ ''/details'' @ BS @ ''/([a-zA-Z0-9]+)'' @ BS @ ''/.*$'')
            (Seq [Bol, Lit ''https://channelstore.roku.com/details/'', Grp 1 (Plus alnum), Lit ''/'', Star Dot, Eol]),
          regex
            (''^https:'' @ BS @ ''/'' @ BS @ ''/channelstore'' @ BS @ ''.roku'' @ BS @ ''.com'' @ BS @ ''/details'' @ BS @ ''/('' @ BS @ ''d+)'' @ BS @ ''/?$'')
            (Seq [Bol, Lit ''https://channelstore.roku.com/details/'', Grp 1 (Plus digit), Opt (Lit ''/''), Eol])],
       bundlePattern =
         regex
           (''^'' @ BS @ ''d+$'')
           (Seq [Bol, Plus digit, Eol]),
       platform = ''Roku OS'' \<rparr>"

definition store_amazon :: StoreConfig where
  "store_amazon =
     \<lparr> patterns =
         [regex
            (''^https:'' @ BS @ ''/'' @ BS @ ''/www'' @ BS @ ''.amazon'' @ BS @ ''.com'' @ BS @ ''/.*'' @ BS @ ''/dp'' @ BS @ ''/([A-Z0-9]+)$'')
            (Seq [Bol, Lit ''https://www.amazon.com/'', Star Dot, Lit ''/dp/'', Grp 1 (Plus (OneOf [(CHR ''A'', CHR ''Z''), (CHR ''0'', CHR ''9'')])), Eol]),
          regex
            (''^https:'' @ BS @ ''/'' @ BS @ ''/www'' @ BS @ ''.amazon'' @ BS @ ''.com'' @ BS @ ''/dp'' @ BS @ ''/([A-Z0-9]+)$'')
            (Seq [Bol, Lit ''https://www.amazon.com/dp/'', Grp 1 (Plus (OneOf [(CHR ''A'', CHR ''Z''), (CHR ''0'', CHR ''9'')])), Eol])],
       bundlePattern =
         regex
           (''^[A-Z0-9]+$'')
           (Seq [Bol, Plus (OneOf [(CHR ''A'', CHR ''Z''), (CHR ''0'', CHR ''9'')]), Eol]),
       platform = ''Fire OS'' \<rparr>"

definition store_microsoft :: StoreConfig where
  "store_microsoft =
     \<lparr> patterns =
         [regex
            (''^https:'' @ BS @ ''/'' @ BS @ ''/www'' @ BS @ ''.microsoft'' @ BS @ ''.com'' @ BS @ ''/.*'' @ BS @ ''/p'' @ BS @ ''/.*'' @ BS @ ''/([a-z0-9]+)$'')
            (Seq [Bol, Lit ''https://www.microsoft.com/'', Star Dot, Lit ''/p/'', Star Dot, Lit ''/'', Grp 1 (Plus (OneOf [(CHR ''a'', CHR ''z''), (CHR ''0'', CHR ''9'')])), Eol]),
          regex
            (''^https:'' @ BS @ ''/'' @ BS @ ''/www'' @ BS @ ''.microsoft'' @ BS @ ''.com'' @ BS @ ''/p'' @ BS @ ''/.*'' @ BS @ ''/([a-z0-9]+)$'')
            (Seq [Bol, Lit ''https://www.microsoft.com/p/'', Star Dot, Lit ''/'', Grp 1 (Plus (OneOf [(CHR ''a'', CHR ''z''), (CHR ''0'', CHR ''9'')])), Eol])],
       bundlePattern =
         regex
           (''^[a-z0-9]+$'')
           (Seq [Bol, Plus (OneOf [(CHR ''a'', CHR ''z''), (CHR ''0'', CHR ''9'')]), Eol]),
       platform = ''Microsoft'' \<rparr>"

definition store_samsung :: StoreConfig where
  "store_samsung =
     \<lparr> patterns =
         [regex
            (''^https:'' @ BS @ ''/'' @ BS @ ''/www'' @ BS @ ''.samsung'' @ BS @ ''.com'' @ BS @ ''/us'' @ BS @ ''/appstore'' @ BS @ ''/app'' @ BS @ ''/(G'' @ BS @ ''d+)$'')
            (Seq [Bol, Lit ''https://www.samsung.com/us/appstore/app/'', Grp 1 (Seq [Lit ''G'', Plus digit]), Eol])],
       bundlePattern =
         regex
           (''^G'' @ BS @ ''d+$'')
           (Seq [Bol, Lit ''G'', Plus digit, Eol]),
       platform = ''Tizen'' \<rparr>"

definition store_lg :: StoreConfig where
  "store_lg =
     \<lparr> patterns =
         [regex
            (''^https:'' @ BS @ ''/'' @ BS @ ''/us'' @ BS @ ''.lgappstv'' @ BS @ ''.com'' @ BS @ ''/main'' @ BS @ ''/tvapp'' @ BS @ ''/detail'' @ BS @ ''?appId=('' @ BS @ ''d+)$'')
            (Seq [Bol, Lit ''https://us.lgappstv.com/main/tvapp/detail?appId='', Grp 1 (Plus digit), Eol]),
          regex
            (''^https:'' @ BS @ ''/'' @ BS @ ''/fr'' @ BS @ ''.lgappstv'' @ BS @ ''.com'' @ BS @ ''/main'' @ BS @ ''/tvapp'' @ BS @ ''/detail'' @ BS @ ''?appId=('' @ BS @ ''d+)$'')
            (Seq [Bol, Lit ''https://fr.lgappstv.com/main/tvapp/detail?appId='', Grp 1 (Plus digit), Eol])],
       bundlePattern =
         regex
           (''^'' @ BS @ ''d+$'')
           (Seq [Bol, Plus digit, Eol]),
       platform = ''WebOS'' \<rparr>"

definition store_playstation :: StoreConfig where
  "store_playstation =
     \<lparr> patterns =
         [regex
            (''^https:'' @ BS @ ''/'' @ BS @ ''/store'' @ BS @ ''.playstation'' @ BS @ ''.com'' @ BS @ ''/en-us'' @ BS @ ''/product'' @ BS @ ''/([A-Z0-9_-]+)$'')
            (Seq [Bol, Lit ''https://store.playstation.com/en-us/product/'', Grp 1 (Plus (OneOf [(CHR ''A'', CHR ''Z''), (CHR ''0'', CHR ''9''), (CHR ''_'', CHR ''_''), (CHR ''-'', CHR ''-'')])), Eol])],
       bundlePattern =
         regex
           (''^[A-Z0-9_-]+$'')
           (Seq [Bol, Plus (OneOf [(CHR ''A'', CHR ''Z''), (CHR ''0'', CHR ''9''), (CHR ''_'', CHR ''_''), (CHR ''-'', CHR ''-'')]), Eol]),
       platform = ''Orbis OS'' \<rparr>"

definition store_vizio :: StoreConfig where
  "store_vizio =
     \<lparr> patterns =
         [regex
            (''^https:'' @ BS @ ''/'' @ BS @ ''/www'' @ BS @ ''.vizio'' @ BS @ ''.com'' @ BS @ ''/smart-tv-apps'' @ BS @ ''?appName=([a-zA-Z0-9]+)&appId=(vizio'' @ BS @ ''.[a-zA-Z0-9]+)$'')
            (Seq [Bol, Lit ''https://www.vizio.com/smart-tv-apps?appName='', Grp 1 (Plus alnum), Lit ''&appId='', Grp 2 (Seq [Lit ''vizio.'', Plus alnum]), Eol])],
       bundlePattern =
         regex
           (''^vizio'' @ BS @ ''.[a-zA-Z0-9]+$'')
           (Seq [Bol, Lit ''vizio.'', Plus alnum, Eol]),
       platform = ''SmartCast'' \<rparr>"

definition store_philips :: StoreConfig where
  "store_philips =
     \<lparr> patterns =
         [regex
            (''^https:'' @ BS @ ''/'' @ BS @ ''/www'' @ BS @ ''.zeasn'' @ BS @ ''.tv'' @ BS @ ''/whaleeco'' @ BS @ ''/appstore'' @ BS @ ''/detail'' @ BS @ ''?appid=('' @ BS @ ''d+)$'')
            (Seq [Bol, Lit ''https://www.zeasn.tv/whaleeco/appstore/detail?appid='', Grp 1 (Plus digit), Eol])],
       bundlePattern =
         regex
           (''^'' @ BS @ ''d+$'')
           (Seq [Bol, Plus digit, Eol]),
       platform = ''AndroidTV'' \<rparr>"

definition store_huawei :: StoreConfig where
  "store_huawei =
     \<lparr> patterns =
         [regex
            (''^https:'' @ BS @ ''/'' @ BS @ ''/appgallery'' @ BS @ ''.huawei'' @ BS @ ''.com'' @ BS @ ''/#'' @ BS @ ''/app'' @ BS @ ''/(C'' @ BS @ ''d+)$'')
            (Seq [Bol, Lit ''https://appgallery.huawei.com/#/app/'', Grp 1 (Seq [Lit ''C'', Plus digit]), Eol])],
       bundlePattern =
         regex
           (''^C'' @ BS @ ''d+$'')
           (Seq [Bol, Lit ''C'', Plus digit, Eol]),
       platform = ''HarmonyOS'' \<rparr>"

definition STORE_URL_PATTERNS :: "(string \<times> StoreConfig) list" where
  "STORE_URL_PATTERNS =
     [(''ios'', store_ios),
      (''android'', store_android),
      (''roku'', store_roku),
      (''amazon'', store_amazon),
      (''microsoft'', store_microsoft),
      (''samsung'', store_samsung),
      (''lg'', store_lg),
      (''playstation'', store_playstation),
      (''vizio'', store_vizio),
      (''philips'', store_philips),
      (''huawei'', store_huawei)]"

section \<open>Issues and the result\<close>

datatype severity = Error | Warning | Info

text \<open>
  \<^verbatim>\<open>ValidationIssue\<close>. The field \<^verbatim>\<open>id\<close> is \<open>issue_id\<close> here. An \<open>actualValue\<close> that a
  rule does not set is \<open>Undefined\<close>; no rule sets \<open>specReference\<close>.
\<close>

record ValidationIssue =
  issue_id :: string
  severity :: severity
  fieldPath :: string
  message :: string
  actualValue :: jsval
  expectedValue :: "string option"
  specReference :: "string option"

definition issue :: "string \<Rightarrow> severity \<Rightarrow> string \<Rightarrow> string \<Rightarrow> jsval \<Rightarrow> string option \<Rightarrow> ValidationIssue" where
  "issue i sev path msg act ex =
     \<lparr> issue_id = i, severity = sev, fieldPath = path, message = msg,
       actualValue = act, expectedValue = ex, specReference = None \<rparr>"

text \<open>\<open>when c i\<close>: the rule \<^verbatim>\<open>if (c) issues.push(i)\<close>.\<close>

definition "when" :: "bool \<Rightarrow> ValidationIssue \<Rightarrow> ValidationIssue list" where
  "when c i = (if c then [i] else [])"

record AdPodDetails =
  slots :: nat
  totalDuration :: jsval

record DetectedCharacteristics =
  primaryType :: string
  mediaFormats :: "jsval list option"
  platformName :: "string option"
  deviceInfo :: "string option"
  privacySignals :: "string list"
  isAdPod :: "bool option"
  adPodDetails :: "AdPodDetails option"

record BidRequestValidationResult =
  detectedCharacteristics :: DetectedCharacteristics
  issues :: "ValidationIssue list"
  isValid :: bool

section \<open>Store URL and bundle\<close>

definition toUpperCase :: "string \<Rightarrow> string" where
  "toUpperCase s =
     map (\<lambda>c. if inRanges [(CHR ''a'', CHR ''z'')] c then char_of (of_char c - (32::nat)) else c) s"

text \<open>
  The inner loop of \<open>validateStoreUrlAndBundle\<close>: \<^verbatim>\<open>storeUrl.match(pattern)\<close> for the
  patterns of one platform, up to the first that matches. The patterns are returned as
  the calls leave them.
\<close>

fun tryPatterns :: "string \<Rightarrow> RegExp list \<Rightarrow> rmatch option \<times> RegExp list" where
  "tryPatterns storeUrl [] = (None, [])"
| "tryPatterns storeUrl (pattern # rest) =
     (case RegExp_exec pattern storeUrl of
        (Some m, pattern') \<Rightarrow> (Some m, pattern' # rest)
      | (None, pattern') \<Rightarrow>
          (case tryPatterns storeUrl rest of (r, rest') \<Rightarrow> (r, pattern' # rest')))"

text \<open>
  The outer loop. At the first match the two checks run and the function returns
  (\<open>Some\<close> of the issues pushed); \<open>None\<close> says that no pattern of any platform matched.
\<close>

fun tryPlatforms ::
  "string \<Rightarrow> string \<Rightarrow> (string \<times> StoreConfig) list
     \<Rightarrow> ValidationIssue list option \<times> (string \<times> StoreConfig) list" where
  "tryPlatforms storeUrl bundle [] = (None, [])"
| "tryPlatforms storeUrl bundle ((platformKey, config) # rest) =
     (case tryPatterns storeUrl (patterns config) of
        (Some (i, e, cs), ps') \<Rightarrow>
          (let extractedBundle = map_of cs 1;
               (ok, bp') = RegExp_test (bundlePattern config) bundle
           in (Some
                 (when (\<not> ok)
                    (issue (''EQ-App-'' @ toUpperCase platformKey @ ''-010'') Error
                       ''BidRequest.app.bundle''
                       (platformKey @ '': bundle must match store-specific pattern'')
                       (Str bundle)
                       (Some (''Pattern: '' @ source (bundlePattern config))))
                  @ when (extractedBundle \<noteq> Some bundle)
                    (issue (''EQ-App-'' @ toUpperCase platformKey @ ''-015'') Error
                       ''BidRequest.app''
                       (''Bundle ID mismatch: bundle ('' @ bundle
                          @ '') doesn'' @ [CHR 0x27] @ ''t match store URL (''
                          @ (case extractedBundle of Some x \<Rightarrow> x | None \<Rightarrow> ''undefined'')
                          @ '')'')
                       (Str bundle)
                       extractedBundle)),
               (platformKey, config\<lparr>patterns := ps', bundlePattern := bp'\<rparr>) # rest))
      | (None, ps') \<Rightarrow>
          (case tryPlatforms storeUrl bundle rest of
             (r, rest') \<Rightarrow> (r, (platformKey, config\<lparr>patterns := ps'\<rparr>) # rest')))"

definition validateStoreUrlAndBundle ::
  "(string \<times> StoreConfig) list \<Rightarrow> string \<Rightarrow> string
     \<Rightarrow> ValidationIssue list \<times> (string \<times> StoreConfig) list" where
  "validateStoreUrlAndBundle table storeUrl bundle =
     (case tryPlatforms storeUrl bundle table of
        (Some found, table') \<Rightarrow> (found, table')
      | (None, table') \<Rightarrow>
          ([issue ''EQ-App-016'' Error ''BidRequest.app.storeurl''
              ''Store URL does not match any known platform patterns''
              (Str storeUrl)
              (Some ''Valid store URL for supported platforms'')],
           table'))"

section \<open>The validators\<close>

subsection \<open>Serialisation\<close>

definition hexDigit :: "nat \<Rightarrow> char" where
  "hexDigit n = (''0123456789abcdef'') ! (n mod 16)"

text \<open>\<^verbatim>\<open>QuoteJSONString\<close> without its enclosing quotes, one character at a time.\<close>

definition quoteChar :: "char \<Rightarrow> string" where
  "quoteChar c =
     (if c = CHR 0x08 then BS @ ''b''
      else if c = CHR 0x09 then BS @ ''t''
      else if c = CHR 0x0A then BS @ ''n''
      else if c = CHR 0x0C then BS @ ''f''
      else if c = CHR 0x0D then BS @ ''r''
      else if c = CHR 0x22 then BS @ [CHR 0x22]
      else if c = CHR 0x5C then BS @ BS
      else if (of_char c :: nat) < 32
        then BS @ ''u00'' @ [hexDigit (of_char c div 16), hexDigit (of_char c)]
      else [c])"

definition quoteJSONString :: "string \<Rightarrow> string" where
  "quoteJSONString s = [CHR 0x22] @ concat (map quoteChar s) @ [CHR 0x22]"

text \<open>
  \<^verbatim>\<open>JSON.stringify\<close> of one value; \<open>None\<close> is the answer \<^verbatim>\<open>undefined\<close>. The own
  properties of an object have distinct keys, as \<^verbatim>\<open>JSON.parse\<close> builds them. A parsed
  tree holds no callable \<^verbatim>\<open>toJSON\<close>.
\<close>

fun JSON_stringify :: "engine \<Rightarrow> jsval \<Rightarrow> string option" where
  "JSON_stringify E Undefined = None"
| "JSON_stringify E (Fn f) = None"
| "JSON_stringify E Null = Some ''null''"
| "JSON_stringify E (Bool b) = Some (if b then ''true'' else ''false'')"
| "JSON_stringify E (Num n) =
     Some (case n of Fin r \<Rightarrow> numberToString E n | _ \<Rightarrow> ''null'')"
| "JSON_stringify E (Str s) = Some (quoteJSONString s)"
| "JSON_stringify E (Arr xs) =
     Some (''['' @ join '',''
             (map (\<lambda>x. case JSON_stringify E x of None \<Rightarrow> ''null'' | Some t \<Rightarrow> t) xs)
           @ '']'')"
| "JSON_stringify E (Obj ps) =
     Some (''{'' @ join '',''
             (concat (map (\<lambda>kv. case JSON_stringify E (snd kv) of
                                   None \<Rightarrow> []
                                 | Some t \<Rightarrow> [quoteJSONString (fst kv) @ '':'' @ t]) ps))
           @ ''}'')"

subsection \<open>Addresses\<close>

definition octet :: rx where
  "octet =
     Alt [Seq [Lit ''25'', OneOf [(CHR ''0'', CHR ''5'')]],
          Seq [Lit ''2'', OneOf [(CHR ''0'', CHR ''4'')], digit],
          Seq [Opt (OneOf [(CHR ''0'', CHR ''1'')]), digit, Opt digit]]"

definition ipv4Regex :: RegExp where
  "ipv4Regex =
     regex
       (''^(?:(?:25[0-5]|2[0-4][0-9]|[01]?[0-9][0-9]?)'' @ BS
          @ ''.){3}(?:25[0-5]|2[0-4][0-9]|[01]?[0-9][0-9]?)$'')
       (Seq [Bol, Rep 3 (Some 3) (Seq [octet, Lit ''.'']), octet, Eol])"

definition hexChar :: rx where
  "hexChar = OneOf [(CHR ''0'', CHR ''9''), (CHR ''a'', CHR ''f''), (CHR ''A'', CHR ''F'')]"

definition ipv6Regex :: RegExp where
  "ipv6Regex =
     regex ''^(?:[0-9a-fA-F]{1,4}:){7}[0-9a-fA-F]{1,4}$''
       (Seq [Bol, Rep 7 (Some 7) (Seq [Rep 1 (Some 4) hexChar, Lit '':'']),
             Rep 1 (Some 4) hexChar, Eol])"

text \<open>
  \<open>isValidIPv4\<close> and \<open>isValidIPv6\<close> build their pattern at each call; \<^verbatim>\<open>test\<close> converts
  its argument to a string first.
\<close>

definition isValidIPv4 :: "engine \<Rightarrow> jsval \<Rightarrow> thrown + bool" where
  "isValidIPv4 E ip = bindE (ToString E ip) (\<lambda>s. Inr (fst (RegExp_test ipv4Regex s)))"

definition isValidIPv6 :: "engine \<Rightarrow> jsval \<Rightarrow> thrown + bool" where
  "isValidIPv6 E ip = bindE (ToString E ip) (\<lambda>s. Inr (fst (RegExp_test ipv6Regex s)))"

text \<open>
  \<open>isTruncatedIP\<close> calls \<^verbatim>\<open>ip.endsWith\<close>, which only a string has. \<open>isTruncatedIPv6\<close>
  calls \<^verbatim>\<open>ipv6.includes\<close> and reads \<^verbatim>\<open>ipv6.length\<close>, which a string and an array have.
\<close>

fun isTruncatedIP :: "jsval \<Rightarrow> thrown + bool" where
  "isTruncatedIP (Str ip) =
     Inr (strEndsWith ip ''.0'' \<or> strIncludes ip ''xxx'' \<or> strIncludes ip ''***'')"
| "isTruncatedIP v = Inl TypeError"

fun isTruncatedIPv6 :: "jsval \<Rightarrow> thrown + bool" where
  "isTruncatedIPv6 (Str ipv6) = Inr (strIncludes ipv6 ''::'' \<and> length ipv6 < 15)"
| "isTruncatedIPv6 (Arr xs) = Inr (Str ''::'' \<in> set xs \<and> length xs < 15)"
| "isTruncatedIPv6 v = Inl TypeError"

subsection \<open>Data centres and continents\<close>

record DataCenter =
  dc_id :: nat
  dc_name :: string
  technical :: string
  continent :: "string option"
  city :: string

definition DATA_CENTERS :: "DataCenter list" where
  "DATA_CENTERS =
     [\<lparr> dc_id = 2, dc_name = ''Telecity'', technical = '''', continent = None, city = '''' \<rparr>,
      \<lparr> dc_id = 3, dc_name = ''Equinix'', technical = ''eqx'', continent = Some ''Europe'', city = ''St Denis, Paris Area, FR'' \<rparr>,
      \<lparr> dc_id = 4, dc_name = ''Interxion5'', technical = ''itx5'', continent = Some ''Europe'', city = ''Velizy, Paris Area, FR'' \<rparr>,
      \<lparr> dc_id = 5, dc_name = ''Terremark'', technical = ''tmk'', continent = Some ''Americas'', city = ''Miami, Florida, US'' \<rparr>,
      \<lparr> dc_id = 6, dc_name = ''Interxion4'', technical = ''itx4'', continent = Some ''Europe'', city = ''Velizy, Paris Area, FR'' \<rparr>,
      \<lparr> dc_id = 7, dc_name = ''China'', technical = '''', continent = Some ''Asia'', city = '''' \<rparr>,
      \<lparr> dc_id = 8, dc_name = ''Apac'', technical = ''sgp'', continent = Some ''Asia'', city = ''Singapore, SG'' \<rparr>,
      \<lparr> dc_id = 10, dc_name = ''USW1'', technical = ''usw1'', continent = Some ''Americas'', city = ''Los Angeles, CA, US'' \<rparr>,
      \<lparr> dc_id = 11, dc_name = ''EUW1'', technical = ''euw1'', continent = Some ''Europe'', city = ''Amsterdam, NL'' \<rparr>,
      \<lparr> dc_id = 12, dc_name = ''USE1'', technical = ''use1'', continent = Some ''Americas'', city = ''Washington, US'' \<rparr>,
      \<lparr> dc_id = 13, dc_name = ''APAC1'', technical = ''apac1'', continent = Some ''Asia'', city = ''Singapore, SG'' \<rparr>,
      \<lparr> dc_id = 14, dc_name = ''EUW2'', technical = ''euw2'', continent = Some ''Europe'', city = ''Gravelines, hauts-de-france, FR'' \<rparr>,
      \<lparr> dc_id = 15, dc_name = ''EUW3-DATA'', technical = ''euw3-data'', continent = Some ''Europe'', city = '''' \<rparr>,
      \<lparr> dc_id = 16, dc_name = ''USE2'', technical = ''use2'', continent = Some ''Americas'', city = ''Warrenton, VA, US'' \<rparr>]"

definition COUNTRY_CONTINENT_MAP :: "(string \<times> string) list" where
  "COUNTRY_CONTINENT_MAP =
     [(''ASM'', ''Oceania''), (''BHS'', ''Americas''), (''BHR'', ''Asia''), (''BEL'', ''Europe''),
      (''BMU'', ''Americas''), (''BOL'', ''Americas''), (''BRA'', ''Americas''), (''BRN'', ''Asia''),
      (''BGR'', ''Europe''), (''TCD'', ''Africa''), (''CHL'', ''Americas''), (''CHN'', ''Asia''),
      (''COL'', ''Americas''), (''COM'', ''Africa''), (''COK'', ''Oceania''), (''CZE'', ''Europe''),
      (''DJI'', ''Africa''), (''DMA'', ''Americas''), (''DOM'', ''Americas''), (''EGY'', ''Africa''),
      (''SLV'', ''Americas''), (''FJI'', ''Oceania''), (''GUF'', ''Americas''), (''DEU'', ''Europe''),
      (''GHA'', ''Africa''), (''GRC'', ''Europe''), (''GRD'', ''Americas''), (''GUM'', ''Oceania''),
      (''HTI'', ''Americas''), (''HND'', ''Americas''), (''IND'', ''Asia''), (''IDN'', ''Asia''),
      (''IRN'', ''Asia''), (''ISR'', ''Asia''), (''JPN'', ''Asia''), (''KWT'', ''Asia''),
      (''LSO'', ''Africa''), (''LIE'', ''Europe''), (''LTU'', ''Europe''), (''LUX'', ''Europe''),
      (''MWI'', ''Africa''), (''MDV'', ''Asia''), (''MHL'', ''Oceania''), (''MTQ'', ''Americas''),
      (''MRT'', ''Africa''), (''MEX'', ''Americas''), (''FSM'', ''Oceania''), (''MCO'', ''Europe''),
      (''MNG'', ''Asia''), (''MOZ'', ''Africa''), (''NRU'', ''Oceania''), (''NCL'', ''Oceania''),
      (''NGA'', ''Africa''), (''PAK'', ''Asia''), (''PER'', ''Americas''), (''PRT'', ''Europe''),
      (''PRI'', ''Americas''), (''QAT'', ''Asia''), (''REU'', ''Africa''), (''KNA'', ''Americas''),
      (''VCT'', ''Americas''), (''STP'', ''Africa''), (''SEN'', ''Africa''), (''SYC'', ''Africa''),
      (''SGP'', ''Asia''), (''SVN'', ''Europe''), (''ZAF'', ''Africa''), (''SDN'', ''Africa''),
      (''SWZ'', ''Africa''), (''CHE'', ''Europe''), (''TWN'', ''Asia''), (''TON'', ''Oceania''),
      (''TUR'', ''Asia''), (''UGA'', ''Africa''), (''GBR'', ''Europe''), (''UZB'', ''Asia''),
      (''VIR'', ''Americas''), (''ZMB'', ''Africa''), (''ZWE'', ''Africa''), (''AFG'', ''Asia''),
      (''ALB'', ''Europe''), (''AND'', ''Europe''), (''AGO'', ''Africa''), (''AIA'', ''Americas''),
      (''ARM'', ''Asia''), (''AUT'', ''Europe''), (''BTN'', ''Asia''), (''BFA'', ''Africa''),
      (''BDI'', ''Africa''), (''CAN'', ''Americas''), (''CPV'', ''Africa''), (''CAF'', ''Africa''),
      (''COD'', ''Africa''), (''CRI'', ''Americas''), (''CUB'', ''Americas''), (''CYP'', ''Asia''),
      (''DNK'', ''Europe''), (''ECU'', ''Americas''), (''ETH'', ''Africa''), (''FLK'', ''Americas''),
      (''FRO'', ''Europe''), (''FIN'', ''Europe''), (''GMB'', ''Africa''), (''GEO'', ''Asia''),
      (''GNB'', ''Africa''), (''GUY'', ''Americas''), (''ISL'', ''Europe''), (''JOR'', ''Asia''),
      (''KAZ'', ''Asia''), (''PRK'', ''Asia''), (''KOR'', ''Asia''), (''KGZ'', ''Asia''),
      (''LAO'', ''Asia''), (''LVA'', ''Europe''), (''LBN'', ''Asia''), (''LBY'', ''Africa''),
      (''MKD'', ''Europe''), (''MYS'', ''Asia''), (''MUS'', ''Africa''), (''MMR'', ''Asia''),
      (''NER'', ''Africa''), (''NIU'', ''Oceania''), (''OMN'', ''Asia''), (''PLW'', ''Oceania''),
      (''PNG'', ''Oceania''), (''PRY'', ''Americas''), (''PHL'', ''Asia''), (''RUS'', ''Asia''),
      (''RWA'', ''Africa''), (''LCA'', ''Americas''), (''SMR'', ''Europe''), (''SAU'', ''Asia''),
      (''SLE'', ''Africa''), (''SUR'', ''Americas''), (''SWE'', ''Europe''), (''TJK'', ''Asia''),
      (''TZA'', ''Africa''), (''TGO'', ''Africa''), (''TTO'', ''Americas''), (''TKM'', ''Asia''),
      (''TUV'', ''Oceania''), (''USA'', ''Americas''), (''VUT'', ''Oceania''), (''VEN'', ''Americas''),
      (''YEM'', ''Asia''), (''DZA'', ''Africa''), (''ATG'', ''Americas''), (''ARG'', ''Americas''),
      (''ABW'', ''Americas''), (''AUS'', ''Oceania''), (''AZE'', ''Asia''), (''BGD'', ''Asia''),
      (''BRB'', ''Americas''), (''BLR'', ''Europe''), (''BLZ'', ''Americas''), (''BEN'', ''Africa''),
      (''BIH'', ''Europe''), (''BWA'', ''Africa''), (''KHM'', ''Asia''), (''CMR'', ''Africa''),
      (''CYM'', ''Americas''), (''CXR'', ''Asia''), (''COG'', ''Africa''), (''GNQ'', ''Africa''),
      (''ERI'', ''Africa''), (''EST'', ''Europe''), (''FRA'', ''Europe''), (''PYF'', ''Oceania''),
      (''GAB'', ''Africa''), (''GIB'', ''Europe''), (''GRL'', ''Americas''), (''GLP'', ''Americas''),
      (''GTM'', ''Americas''), (''GIN'', ''Africa''), (''HUN'', ''Europe''), (''IRQ'', ''Asia''),
      (''IRL'', ''Europe''), (''ITA'', ''Europe''), (''JAM'', ''Americas''), (''KEN'', ''Africa''),
      (''KIR'', ''Oceania''), (''LBR'', ''Africa''), (''MDG'', ''Africa''), (''MLI'', ''Africa''),
      (''MLT'', ''Europe''), (''MYT'', ''Africa''), (''MDA'', ''Europe''), (''MSR'', ''Americas''),
      (''MAR'', ''Africa''), (''NAM'', ''Africa''), (''NPL'', ''Asia''), (''NLD'', ''Europe''),
      (''NIC'', ''Americas''), (''NFK'', ''Oceania''), (''MNP'', ''Oceania''), (''NOR'', ''Europe''),
      (''PAN'', ''Americas''), (''POL'', ''Europe''), (''ROU'', ''Europe''), (''WSM'', ''Oceania''),
      (''SVK'', ''Europe''), (''SLB'', ''Oceania''), (''SOM'', ''Africa''), (''ESP'', ''Europe''),
      (''LKA'', ''Asia''), (''SYR'', ''Asia''), (''THA'', ''Asia''), (''TUN'', ''Africa''),
      (''TCA'', ''Americas''), (''UKR'', ''Europe''), (''ARE'', ''Asia''), (''URY'', ''Americas''),
      (''VNM'', ''Asia''), (''VGB'', ''Americas''), (''WLF'', ''Oceania''), (''CIV'', ''Africa''),
      (''HRV'', ''Europe''), (''VAT'', ''Europe''), (''NZL'', ''Oceania''), (''SHN'', ''Africa''),
      (''SPM'', ''Americas''), (''SJM'', ''Europe''), (''TKL'', ''Oceania''), (''CCK'', ''Asia''),
      (''PCN'', ''Oceania''), (''ESH'', ''Africa'')]"

text \<open>
  \<^verbatim>\<open>COUNTRY_CONTINENT_MAP[country]\<close>: the key is the text of \<open>country\<close>, and the table
  is an ordinary object, so the names of \<^verbatim>\<open>Object.prototype\<close> are found in it too.
\<close>

definition countryContinentOf :: "string \<Rightarrow> jsval" where
  "countryContinentOf key = propOf (Obj (map (\<lambda>(k, v). (k, Str v)) COUNTRY_CONTINENT_MAP)) key"

definition validateCountryDatacenterMatch ::
  "engine \<Rightarrow> jsval \<Rightarrow> jsval \<Rightarrow> thrown + ValidationIssue list" where
  "validateCountryDatacenterMatch E country datacenterId =
     (if \<not> truthy datacenterId then Inr []
      else bindE (ToString E country) (\<lambda>key.
        let countryContinent = countryContinentOf key in
        if \<not> truthy countryContinent then Inr []
        else case find (\<lambda>dc. Num (Fin (of_nat (dc_id dc))) = datacenterId) DATA_CENTERS of
          None \<Rightarrow> Inr []
        | Some datacenter \<Rightarrow>
            (case continent datacenter of
               None \<Rightarrow> Inr []
             | Some dcContinent \<Rightarrow>
                 if dcContinent = [] then Inr []
                 else if Str dcContinent = countryContinent then Inr []
                 else bindE (ToString E countryContinent) (\<lambda>cc.
                   Inr [issue ''EQ-Device-024'' Warning ''BidRequest.device.geo.country''
                          ''Country continent mismatch with datacenter continent''
                          (Str (key @ '' ('' @ cc @ '') vs Datacenter: '' @ dc_name datacenter
                                @ '' ('' @ dcContinent @ '')''))
                          (Some ''Country continent should match datacenter continent'')]))))"

subsection \<open>Characteristics\<close>

text \<open>
  The spread \<^verbatim>\<open>...v\<close> into an argument list: the elements of an array, the characters
  of a string, and a throw for a value that cannot be iterated.
\<close>

fun spread :: "jsval \<Rightarrow> thrown + jsval list" where
  "spread (Arr xs) = Inr xs"
| "spread (Str s) = Inr (map (\<lambda>c. Str [c]) s)"
| "spread v = Inl TypeError"

fun isObject :: "jsval \<Rightarrow> bool" where
  "isObject (Arr xs) = True"
| "isObject (Obj ps) = True"
| "isObject (Fn f) = True"
| "isObject v = False"

text \<open>
  \<^verbatim>\<open>[...new Set(xs)]\<close>: a primitive is kept at its first occurrence only; two objects
  of a parsed tree are never the same object.
\<close>

definition newSet :: "jsval list \<Rightarrow> jsval list" where
  "newSet xs = foldl (\<lambda>acc x. if \<not> isObject x \<and> x \<in> set acc then acc else acc @ [x]) [] xs"

text \<open>
  One turn of the loop over \<^verbatim>\<open>bidRequest.imp\<close>: the labels pushed to \<^verbatim>\<open>types\<close> and the
  values pushed to \<^verbatim>\<open>mediaFormats\<close> for one impression.
\<close>

definition impFormats :: "jsval \<Rightarrow> thrown + string list \<times> jsval list" where
  "impFormats imp =
     bindE (get imp ''video'') (\<lambda>video.
     bindE (if truthy video \<and> truthy (propOf video ''mimes'')
            then spread (propOf video ''mimes'') else Inr []) (\<lambda>mimes.
       Inr ((if truthy video then [''Video''] else [])
            @ (if truthy (propOf imp ''native'') then [''Native''] else [])
            @ (if truthy (propOf imp ''banner'') then [''Display''] else [])
            @ (if truthy (propOf imp ''audio'') then [''Audio''] else []),
            mimes)))"

fun allFormats :: "jsval list \<Rightarrow> thrown + string list \<times> jsval list" where
  "allFormats [] = Inr ([], [])"
| "allFormats (imp # imps) =
     bindE (impFormats imp) (\<lambda>(types, mimes).
     bindE (allFormats imps) (\<lambda>(types', mimes'). Inr (types @ types', mimes @ mimes')))"

definition hasPodid :: "jsval \<Rightarrow> thrown + bool" where
  "hasPodid imp = bindE (get imp ''video'') (\<lambda>video. Inr (truthy (getq video ''podid'')))"

definition hasPoddur :: "jsval \<Rightarrow> thrown + bool" where
  "hasPoddur imp = bindE (get imp ''video'') (\<lambda>video. Inr (truthy (getq video ''poddur'')))"

text \<open>\<^verbatim>\<open>.reduce((sum, imp) => sum + (imp.video.poddur || 0), sum0)\<close>.\<close>

fun sumPoddur :: "engine \<Rightarrow> jsval \<Rightarrow> jsval list \<Rightarrow> thrown + jsval" where
  "sumPoddur E acc [] = Inr acc"
| "sumPoddur E acc (imp # imps) =
     bindE (get imp ''video'') (\<lambda>video.
     bindE (get video ''poddur'') (\<lambda>poddur.
     bindE (js_add E acc (if truthy poddur then poddur else Num (Fin 0))) (\<lambda>acc'.
       sumPoddur E acc' imps)))"

definition detectBidRequestCharacteristics :: "engine \<Rightarrow> jsval \<Rightarrow> thrown + DetectedCharacteristics" where
  "detectBidRequestCharacteristics E bidRequest =
     bindE (get bidRequest ''imp'') (\<lambda>imp.
     bindE (if truthy imp \<and> isArray imp
            then bindE (allFormats (elems imp)) (\<lambda>(types, mimes).
                   Inr (if types \<noteq> [] then join '', '' types else ''Unknown'',
                        Some (newSet mimes)))
            else Inr (''Unknown'', None)) (\<lambda>(primary, formats).
     let device = propOf bidRequest ''device'';
         devicetype = propOf device ''devicetype'';
         regs = propOf bidRequest ''regs''
     in
     bindE (if truthy device
            then bindE (if truthy (propOf device ''os'')
                        then bindE (ToString E (propOf device ''os'')) (\<lambda>os.
                               Inr ('' ('' @ os @ '')''))
                        else Inr []) (\<lambda>os.
                   Inr (Some ((if devicetype = Num (Fin 1) then ''Mobile/Tablet''
                               else if devicetype = Num (Fin 2) then ''Desktop''
                               else if devicetype = Num (Fin 5) then ''Connected TV''
                               else if devicetype = Num (Fin 6) then ''Digital Out-of-Home''
                               else if devicetype = Num (Fin 7) then ''Phone''
                               else []) @ os)))
            else Inr None) (\<lambda>info.
     bindE (if truthy imp
            then bindE (some imp hasPodid) (\<lambda>pod.
                   if pod
                   then bindE (filterE hasPodid (elems imp)) (\<lambda>podImps.
                        bindE (filterE hasPoddur (elems imp)) (\<lambda>durImps.
                        bindE (sumPoddur E (Num (Fin 0)) durImps) (\<lambda>total.
                          Inr (Some True,
                               Some \<lparr> slots = length podImps, totalDuration = total \<rparr>))))
                   else Inr (None, None))
            else Inr (None, None)) (\<lambda>(pod, details).
       Inr \<lparr> primaryType = primary,
             mediaFormats = formats,
             platformName =
               (if truthy (propOf bidRequest ''app'') then Some ''Mobile App''
                else if truthy (propOf bidRequest ''site'') then Some ''Website''
                else None),
             deviceInfo = info,
             privacySignals =
               (if getq (getq regs ''ext'') ''gdpr'' = Num (Fin 1)
                then [''GDPR Applicable''] else [])
               @ (if truthy (getq (getq (propOf bidRequest ''user'') ''ext'') ''consent'')
                  then [''TCF String Present''] else [])
               @ (if truthy (getq (getq regs ''ext'') ''us_privacy'')
                  then [''CCPA String Present''] else [])
               @ (if truthy (getq regs ''gpp'') then [''GPP String Present''] else []),
             isAdPod = pod,
             adPodDetails = details \<rparr>))))"

subsection \<open>Core rules of the request\<close>

definition validateCoreBidRequest :: "engine \<Rightarrow> jsval \<Rightarrow> thrown + ValidationIssue list" where
  "validateCoreBidRequest E bidRequest =
     (if nullish bidRequest then Inl TypeError
      else
        let hasSite = truthy (propOf bidRequest ''site'');
            hasApp = truthy (propOf bidRequest ''app'');
            imp = propOf bidRequest ''imp'';
            partnerIsCalled = getq (propOf bidRequest ''ext'') ''partnerIsCalled'';
            reqId = propOf bidRequest ''id'';
            auctionType = propOf bidRequest ''at'';
            testFlag = propOf bidRequest ''test'';
            tmax = propOf bidRequest ''tmax''
        in
        bindE (if \<not> truthy tmax then Inr True else js_le E tmax (Num (Fin 0))) (\<lambda>tmaxBad.
          Inr
           (when (\<not> hasSite \<and> \<not> hasApp)
              (issue ''EQ-BR-001'' Error ''BidRequest''
                 ''BidRequest must contain either a site or an app object''
                 Undefined (Some ''Either site or app object''))
            @ when (\<not> truthy (propOf bidRequest ''device''))
              (issue ''EQ-BR-002'' Error ''BidRequest.device''
                 ''BidRequest must contain a device object''
                 Undefined (Some ''Device object''))
            @ when (\<not> truthy imp \<or> \<not> isArray imp \<or> elems imp = [])
              (issue ''EQ-BR-003'' Error ''BidRequest.imp''
                 ''BidRequest must contain a non-empty impression array''
                 Undefined (Some ''Non-empty array of impressions''))
            @ when (\<not> truthy (propOf bidRequest ''source''))
              (issue ''EQ-BR-004'' Error ''BidRequest.source''
                 ''BidRequest must contain a source object''
                 Undefined (Some ''Source object''))
            @ when (\<not> truthy (propOf bidRequest ''user''))
              (issue ''EQ-BR-005'' Error ''BidRequest.user''
                 ''BidRequest must contain a user object''
                 Undefined (Some ''User object''))
            @ when (partnerIsCalled \<noteq> Undefined \<and> partnerIsCalled \<noteq> Bool True)
              (issue ''EQ-BR-006'' Error ''BidRequest.ext.partnerIsCalled''
                 ''partnerIsCalled must be true when present''
                 partnerIsCalled (Some ''true''))
            @ when (\<not> truthy reqId \<or> \<not> isString reqId \<or> trim (strOf reqId) = [])
              (issue ''Core-BR-001'' Error ''BidRequest.id''
                 ''BidRequest.id must be present and be a non-empty string''
                 reqId (Some ''Non-empty string''))
            @ (if \<not> truthy imp
               then [issue ''Core-BR-002'' Error ''BidRequest.imp''
                       ''BidRequest.imp array must be present''
                       Undefined (Some ''Array of impression objects'')]
               else when (\<not> isArray imp \<or> elems imp = [])
                      (issue ''Core-BR-003'' Error ''BidRequest.imp''
                         ''BidRequest.imp must be a non-empty array''
                         imp (Some ''Non-empty array'')))
            @ when (auctionType = Undefined \<or> \<not> isNumber auctionType)
              (issue ''Core-BR-004'' Error ''BidRequest.at''
                 ''BidRequest.at (auction type) must be present and be an integer''
                 auctionType (Some ''Integer (typically 1 or 2)''))
            @ when (hasSite \<and> hasApp)
              (issue ''Core-BR-006'' Error ''BidRequest''
                 ''BidRequest must not contain both site and app objects''
                 (Str ''Both site and app present'') (Some ''Either site or app, not both''))
            @ when (testFlag \<noteq> Undefined \<and> testFlag \<noteq> Num (Fin 0) \<and> testFlag \<noteq> Num (Fin 1))
              (issue ''Core-BR-007'' Warning ''BidRequest.test''
                 ''test should be 0 (production) or 1 (test)''
                 testFlag (Some ''0 or 1''))
            @ when tmaxBad
              (issue ''Core-BR-009'' Warning ''BidRequest.tmax''
                 ''tmax (timeout) should be present and greater than 0''
                 tmax (Some ''Positive integer (milliseconds)'')))))"

subsection \<open>App\<close>

text \<open>
  \<open>validateApp\<close> is the one validator that uses the shared table of store patterns; it
  returns the table as its calls leave it.
\<close>

definition validateApp ::
  "engine \<Rightarrow> (string \<times> StoreConfig) list \<Rightarrow> jsval
     \<Rightarrow> (thrown + ValidationIssue list) \<times> (string \<times> StoreConfig) list" where
  \<open>validateApp E table bidRequest =
     (if nullish bidRequest then (Inl TypeError, table)
      else
        let app = propOf bidRequest ''app'';
            storeurl = propOf app ''storeurl'';
            bundle = propOf app ''bundle'';
            publisher = propOf app ''publisher''
        in
        if \<not> truthy app then (Inr [], table)
        else if \<not> truthy storeurl \<or> \<not> isString storeurl
        then (Inr [issue ''EQ-App-007'' Error ''BidRequest.app.storeurl''
                     ''app.storeurl must be present and be a string''
                     storeurl (Some ''Valid store URL string'')],
              table)
        else if \<not> truthy bundle \<or> \<not> isString bundle
        then (Inr [issue ''EQ-App-008'' Error ''BidRequest.app.bundle''
                     ''app.bundle must be present and be a string''
                     bundle (Some ''Bundle identifier string'')],
              table)
        else
          (case validateStoreUrlAndBundle table (strOf storeurl) (strOf bundle) of
             (found, table') \<Rightarrow>
               (Inr
                 (found
                  @ when (containsMacros (strOf bundle))
                      (issue ''EQ-App-017'' Error ''BidRequest.app.bundle''
                         ''app.bundle must not contain un-replaced macros''
                         bundle (Some ''Bundle without macros''))
                  @ when (containsMacros (strOf storeurl))
                      (issue ''EQ-App-018'' Error ''BidRequest.app.storeurl''
                         ''app.storeurl must not contain un-replaced macros''
                         storeurl (Some ''Store URL without macros''))
                  @ when (containsMacros
                            (case JSON_stringify E app of Some appJson \<Rightarrow> appJson
                             | None \<Rightarrow> ''undefined''))
                      (issue ''EQ-App-019'' Error ''BidRequest.app''
                         ''app object must not contain potential macros''
                         Undefined (Some ''App object without macros''))
                  @ when (\<not> truthy (propOf app ''id''))
                      (issue ''EQ-App-020'' Warning ''BidRequest.app.id''
                         ''app.id is recommended for better identification''
                         Undefined (Some ''App identifier string''))
                  @ when (\<not> truthy bundle \<or> \<not> isString bundle)
                      (issue ''Core-App-001'' Error ''BidRequest.app.bundle''
                         ''app.bundle must be present and be a string''
                         bundle (Some ''String (e.g., "com.example.app")''))
                  @ (if \<not> truthy storeurl \<or> \<not> isString storeurl
                     then [issue ''Core-App-002'' Error ''BidRequest.app.storeurl''
                             ''app.storeurl must be present and be a string''
                             storeurl (Some ''Valid URL string'')]
                     else
                       when (\<not> URL_ok E (strOf storeurl))
                         (issue ''Core-App-003'' Error ''BidRequest.app.storeurl''
                            ''app.storeurl must be a valid URL''
                            storeurl (Some ''Valid URL''))
                       @ when (strIncludes (strOf storeurl) ''{''
                               \<or> strIncludes (strOf storeurl) ''['')
                         (issue ''Core-App-004'' Error ''BidRequest.app.storeurl''
                            ''app.storeurl contains un-replaced macros''
                            storeurl (Some ''URL without macros'')))
                  @ (if \<not> truthy publisher
                     then [issue ''Core-App-005'' Error ''BidRequest.app.publisher''
                             ''app.publisher object must be present''
                             Undefined (Some ''Publisher object with id'')]
                     else
                       when (\<not> truthy (propOf publisher ''id'')
                             \<or> \<not> isString (propOf publisher ''id''))
                         (issue ''Core-App-006'' Error ''BidRequest.app.publisher.id''
                            ''app.publisher.id must be present and be a string''
                            (propOf publisher ''id'') (Some ''Non-empty string'')))),
                table')))\<close>

subsection \<open>Device\<close>

text \<open>\<open>whenE c i\<close>: a rule whose condition may throw.\<close>

definition whenE :: "thrown + bool \<Rightarrow> ValidationIssue \<Rightarrow> thrown + ValidationIssue list" where
  "whenE c i = bindE c (\<lambda>b. Inr (when b i))"

definition notE :: "thrown + bool \<Rightarrow> thrown + bool" where
  "notE c = bindE c (\<lambda>b. Inr (\<not> b))"

definition allZeroIfa :: string where
  "allZeroIfa = ''00000000-0000-0000-0000-000000000000''"

definition validateDevice :: "engine \<Rightarrow> jsval \<Rightarrow> thrown + ValidationIssue list" where
  \<open>validateDevice E bidRequest =
     (if nullish bidRequest then Inl TypeError
      else
        let device = propOf bidRequest ''device'';
            geo = propOf device ''geo'';
            country = propOf geo ''country'';
            ifa = propOf device ''ifa'';
            ip = propOf device ''ip'';
            ipv6 = propOf device ''ipv6'';
            devicetype = propOf device ''devicetype'';
            ua = propOf device ''ua'';
            truncated_ip = getq (propOf device ''ext'') ''truncated_ip'';
            hasIP = truthy ip;
            hasIPv6 = truthy ipv6
        in
        if \<not> truthy device then Inr []
        else seqE
         [if \<not> truthy geo
          then Inr [issue ''EQ-Device-022'' Error ''BidRequest.device.geo''
                      ''device.geo object must be present''
                      Undefined (Some ''Geo object'')]
          else if \<not> truthy country
          then Inr [issue ''EQ-Device-023'' Error ''BidRequest.device.geo.country''
                      ''device.geo.country must be present''
                      Undefined (Some ''ISO 3166-1 Alpha-3 country code'')]
          else validateCountryDatacenterMatch E country
                 (getq (propOf bidRequest ''ext'') ''auctionDatacenterId''),
          Inr (when (\<not> truthy (propOf device ''make''))
                 (issue ''EQ-Device-025'' Error ''BidRequest.device.make''
                    ''device.make must be present''
                    Undefined (Some ''Device manufacturer string''))),
          Inr (when (\<not> truthy (propOf device ''model''))
                 (issue ''EQ-Device-026'' Error ''BidRequest.device.model''
                    ''device.model must be present''
                    Undefined (Some ''Device model string''))),
          Inr (if \<not> truthy ifa
               then [issue ''EQ-Device-027'' Error ''BidRequest.device.ifa''
                       ''device.ifa (ID for Advertising) must be present''
                       Undefined (Some ''Valid advertising identifier'')]
               else when (ifa = Str allZeroIfa \<and> truncated_ip \<noteq> Num (Fin 1))
                      (issue ''EQ-Device-032'' Error ''BidRequest.device.ext.truncated_ip''
                         ''truncated_ip flag must be set to 1 when device.ifa is all zeros''
                         truncated_ip (Some ''1''))),
          Inr (when (\<not> truthy ip \<and> \<not> truthy ipv6)
                 (issue ''EQ-Device-028'' Error ''BidRequest.device''
                    ''device must contain either ip (IPv4) or ipv6''
                    Undefined (Some ''Valid IP address''))),
          whenE (if truthy ip then notE (isValidIPv4 E ip) else Inr False)
            (issue ''EQ-Device-029'' Error ''BidRequest.device.ip''
               ''device.ip must be a valid IPv4 address''
               ip (Some ''Valid IPv4 address'')),
          whenE (if truthy ip
                 then bindE (isTruncatedIP ip) (\<lambda>t. Inr (t \<and> truncated_ip \<noteq> Num (Fin 1)))
                 else Inr False)
            (issue ''EQ-Device-030'' Error ''BidRequest.device.ext.truncated_ip''
               ''truncated_ip flag must be set to 1 when device.ip is truncated''
               truncated_ip (Some ''1'')),
          whenE (if truthy ipv6
                 then bindE (isTruncatedIPv6 ipv6) (\<lambda>t. Inr (t \<and> truncated_ip \<noteq> Num (Fin 1)))
                 else Inr False)
            (issue ''EQ-Device-031'' Error ''BidRequest.device.ext.truncated_ip''
               ''truncated_ip flag must be set to 1 when device.ipv6 is truncated''
               truncated_ip (Some ''1'')),
          Inr (when (devicetype = Undefined)
                 (issue ''EQ-Device-033'' Error ''BidRequest.device.devicetype''
                    ''device.devicetype must be present''
                    Undefined (Some ''Integer 1-7''))),
          Inr (when (\<not> truthy ua)
                 (issue ''EQ-Device-034'' Error ''BidRequest.device.ua''
                    ''device.ua (User Agent) must be present''
                    Undefined (Some ''User Agent string''))),
          Inr (when (getq (propOf device ''ext'') ''is_app'' = Num (Fin 1)
                     \<and> \<not> truthy (propOf bidRequest ''app''))
                 (issue ''EQ-Device-035'' Error ''BidRequest.device.ext.is_app''
                    ''device.ext.is_app=1 but no app object present''
                    Undefined (Some ''App object when is_app=1''))),
          Inr (when (\<not> truthy ua \<or> \<not> isString ua)
                 (issue ''Core-Device-001'' Error ''BidRequest.device.ua''
                    ''device.ua (User Agent) must be present and be a string''
                    ua (Some ''User Agent string''))),
          Inr (when (\<not> hasIP \<and> \<not> hasIPv6)
                 (issue ''Core-Device-002'' Error ''BidRequest.device''
                    ''device must contain either ip (IPv4) or ipv6''
                    Undefined (Some ''Valid IP address''))),
          whenE (if hasIP then notE (isValidIPv4 E ip) else Inr False)
            (issue ''Core-Device-003'' Error ''BidRequest.device.ip''
               ''device.ip must be a valid IPv4 address''
               ip (Some ''Valid IPv4 address'')),
          whenE (if hasIPv6 then notE (isValidIPv6 E ipv6) else Inr False)
            (issue ''Core-Device-004'' Error ''BidRequest.device.ipv6''
               ''device.ipv6 must be a valid IPv6 address''
               ipv6 (Some ''Valid IPv6 address'')),
          Inr (when (devicetype = Undefined \<or> \<not> isInteger devicetype
                     \<or> num_lt (numOf devicetype) (Fin 1) = Some True
                     \<or> num_lt (Fin 7) (numOf devicetype) = Some True)
                 (issue ''Core-Device-005'' Error ''BidRequest.device.devicetype''
                    ''device.devicetype must be an integer between 1-7''
                    devicetype (Some ''Integer 1-7''))),
          Inr (if \<not> truthy geo
               then [issue ''Core-Device-006'' Error ''BidRequest.device.geo''
                       ''device.geo object must be present''
                       Undefined (Some ''Geo object with country'')]
               else if \<not> truthy country \<or> \<not> isString country
               then [issue ''Core-Device-007'' Error ''BidRequest.device.geo.country''
                       ''device.geo.country must be present and be a string''
                       country (Some ''ISO 3166-1 Alpha-3 country code'')]
               else when (length (strOf country) \<noteq> 3)
                      (issue ''Core-Device-008'' Error ''BidRequest.device.geo.country''
                         ''device.geo.country must be a valid ISO 3166-1 Alpha-3 code''
                         country (Some ''3-letter country code (e.g., "USA")''))),
          Inr (when (propOf device ''lmt'' \<noteq> Num (Fin 1)
                     \<and> (\<not> truthy ifa \<or> ifa = Str allZeroIfa))
                 (issue ''Core-Device-009'' Warning ''BidRequest.device.ifa''
                    ''device.ifa (ID for Advertising) should be present unless lmt=1''
                    ifa (Some ''Valid advertising ID'')))])\<close>

subsection \<open>Impressions\<close>

definition validateVideoImpressionRules ::
  "engine \<Rightarrow> jsval \<Rightarrow> nat \<Rightarrow> thrown + ValidationIssue list" where
  \<open>validateVideoImpressionRules E video impIndex =
     (if nullish video then Inl TypeError
      else
        let basePath = ''BidRequest.imp['' @ digits impIndex @ ''].video'';
            minduration = propOf video ''minduration'';
            maxduration = propOf video ''maxduration'';
            playbackmethod = propOf video ''playbackmethod'';
            placement = propOf video ''placement'';
            mimes = propOf video ''mimes'';
            startdelay = propOf video ''startdelay''
        in seqE
         [if truthy minduration \<and> truthy maxduration
          then bindE (js_sub E maxduration minduration) (\<lambda>durationDiff.
                 Inr (when (num_lt durationDiff (Fin 30) = Some True)
                        (issue ''EQ-Video-037'' Error basePath
                           ''imp.video.maxduration - imp.video.minduration must be greater than 30 seconds''
                           (Str (numberToString E durationDiff @ '' seconds''))
                           (Some ''Greater than 30 seconds''))))
          else Inr [],
          Inr (when (\<not> truthy playbackmethod)
                 (issue ''EQ-Video-038'' Error (basePath @ ''.playbackmethod'')
                    ''imp.video.playbackmethod must be defined''
                    Undefined (Some ''Array of playback method integers''))),
          Inr (when (placement = Undefined)
                 (issue ''EQ-Video-039'' Error (basePath @ ''.placement'')
                    ''imp.video.placement must be defined''
                    Undefined (Some ''Integer placement type''))),
          whenE (if placement = Num (Fin 1) \<and> truthy playbackmethod
                 then notE (js_includes E playbackmethod (Num (Fin 1)))
                 else Inr False)
            (issue ''EQ-Video-040'' Error (basePath @ ''.playbackmethod'')
               ''imp.video.playbackmethod must include 1 (Autoplay Sounds On) for In-Stream placement''
               playbackmethod (Some ''Array including 1'')),
          Inr (when (propOf video ''linearity'' = Undefined)
                 (issue ''EQ-Video-041'' Error (basePath @ ''.linearity'')
                    ''imp.video.linearity must be defined''
                    Undefined (Some ''Integer linearity type''))),
          Inr (when (propOf video ''pos'' = Undefined)
                 (issue ''EQ-Video-042'' Error (basePath @ ''.pos'')
                    ''imp.video.pos (position) must be set''
                    Undefined (Some ''Integer position value''))),
          Inr (when (\<not> truthy (propOf video ''protocols''))
                 (issue ''EQ-Video-043'' Error (basePath @ ''.protocols'')
                    ''imp.video.protocols must be defined''
                    Undefined (Some ''Array of protocol integers''))),
          Inr (if \<not> truthy mimes \<or> \<not> isArray mimes
               then [issue ''EQ-Video-044'' Error (basePath @ ''.mimes'')
                       ''imp.video.mimes must be defined as an array''
                       mimes (Some ''Array of MIME type strings'')]
               else when (Str ''video/mp4'' \<notin> set (elems mimes))
                      (issue ''EQ-Video-045'' Warning (basePath @ ''.mimes'')
                         ''video/mp4 mime is not set. Usually video bid requests contain video/mp4 mimes''
                         mimes (Some ''Array including "video/mp4"''))),
          Inr (when (\<not> truthy (propOf video ''w''))
                 (issue ''EQ-Video-046'' Error (basePath @ ''.w'')
                    ''imp.video.w (width) must be defined''
                    Undefined (Some ''Integer width''))),
          Inr (when (\<not> truthy (propOf video ''h''))
                 (issue ''EQ-Video-047'' Error (basePath @ ''.h'')
                    ''imp.video.h (height) must be defined''
                    Undefined (Some ''Integer height''))),
          Inr (if startdelay = Undefined
               then [issue ''EQ-Video-049'' Warning (basePath @ ''.startdelay'')
                       ''imp.video.startdelay is recommended''
                       Undefined (Some ''Integer start delay'')]
               else when (\<not> isInteger startdelay)
                      (issue ''EQ-Video-050'' Error (basePath @ ''.startdelay'')
                         ''imp.video.startdelay must be an integer (positive, negative or zero)''
                         startdelay (Some ''Integer value'')))])\<close>

text \<open>
  The callback of \<open>validateImpressions\<close> for one impression: the issues it pushes and
  the set \<^verbatim>\<open>impIds\<close> of the identifiers seen so far, as it leaves it.
\<close>

definition impressionRules ::
  "engine \<Rightarrow> string list \<Rightarrow> jsval \<Rightarrow> nat \<Rightarrow> thrown + ValidationIssue list \<times> string list" where
  \<open>impressionRules E impIds imp index =
     (if nullish imp then Inl TypeError
      else
        let basePath = ''BidRequest.imp['' @ digits index @ '']'';
            secure = propOf imp ''secure'';
            video = propOf imp ''video'';
            impId = propOf imp ''id'';
            bidfloor = propOf imp ''bidfloor'';
            hasVideo = truthy video;
            hasNative = truthy (propOf imp ''native'');
            hasBanner = truthy (propOf imp ''banner'');
            mediaCount = length (filter (\<lambda>b. b) [hasVideo, hasNative, hasBanner])
        in
        bindE (if truthy video then validateVideoImpressionRules E video index else Inr [])
          (\<lambda>videoIssues.
            Inr
             (when (secure \<noteq> Undefined \<and> secure \<noteq> Num (Fin 0) \<and> secure \<noteq> Num (Fin 1))
                (issue ''EQ-Imp-036'' Error (basePath @ ''.secure'')
                   ''imp.secure must be either 0 or 1''
                   secure (Some ''0 or 1''))
              @ videoIssues
              @ when (truthy video \<and> \<not> truthy (getq (propOf imp ''ext'') ''wopv''))
                  (issue ''EQ-Imp-048'' Warning (basePath @ ''.ext.wopv'')
                     ''imp.ext.wopv is recommended for video impressions''
                     Undefined (Some ''WOPV (Won on Programmatic Video) flag''))
              @ (if \<not> truthy impId \<or> \<not> isString impId
                 then [issue ''Core-Imp-001'' Error (basePath @ ''.id'')
                         ''Each impression must contain a unique id (string)''
                         impId (Some ''Non-empty string'')]
                 else when (strOf impId \<in> set impIds)
                        (issue ''Core-Imp-001b'' Error (basePath @ ''.id'')
                           ''Impression id must be unique within the request''
                           impId (Some ''Unique string'')))
              @ (if mediaCount = 0
                 then [issue ''Core-Imp-002'' Error basePath
                         ''Each impression must contain either video, native, or banner object''
                         Undefined (Some ''One of: video, native, or banner'')]
                 else when (1 < mediaCount)
                        (issue ''Core-Imp-003'' Error basePath
                           ''Each impression must contain only one of video, native, or banner''
                           (Str ''Multiple media types present'')
                           (Some ''Only one of: video, native, or banner'')))
              @ (if bidfloor \<noteq> Undefined
                 then when (\<not> isNumber bidfloor \<or> num_lt (numOf bidfloor) (Fin 0) = Some True)
                        (issue ''Core-Imp-004'' Warning (basePath @ ''.bidfloor'')
                           ''bidfloor must be a non-negative number''
                           bidfloor (Some ''Non-negative number''))
                      @ when (\<not> truthy (propOf imp ''bidfloorcur''))
                        (issue ''Core-Imp-005'' Error (basePath @ ''.bidfloorcur'')
                           ''bidfloorcur must be present when bidfloor is specified''
                           Undefined (Some ''Currency code (e.g., "USD")''))
                 else [])
              @ when (secure \<noteq> Undefined \<and> secure \<noteq> Num (Fin 0) \<and> secure \<noteq> Num (Fin 1))
                  (issue ''Core-Imp-006'' Error (basePath @ ''.secure'')
                     ''secure must be 0 or 1''
                     secure (Some ''0 or 1'')),
              if truthy impId \<and> isString impId \<and> strOf impId \<notin> set impIds
              then strOf impId # impIds else impIds)))\<close>

fun impressionsFrom ::
  "engine \<Rightarrow> string list \<Rightarrow> nat \<Rightarrow> jsval list \<Rightarrow> thrown + ValidationIssue list" where
  "impressionsFrom E impIds index [] = Inr []"
| "impressionsFrom E impIds index (imp # imps) =
     (case impressionRules E impIds imp index of
        Inl e \<Rightarrow> Inl e
      | Inr (found, impIds') \<Rightarrow>
          (case impressionsFrom E impIds' (Suc index) imps of
             Inl e \<Rightarrow> Inl e
           | Inr rest \<Rightarrow> Inr (found @ rest)))"

definition validateImpressions :: "engine \<Rightarrow> jsval \<Rightarrow> thrown + ValidationIssue list" where
  "validateImpressions E bidRequest =
     (if nullish bidRequest then Inl TypeError
      else
        let imp = propOf bidRequest ''imp''
        in if \<not> truthy imp \<or> \<not> isArray imp then Inr []
           else impressionsFrom E [] 0 (elems imp))"

subsection \<open>Connected TV\<close>

definition hasVideoE :: "jsval \<Rightarrow> thrown + bool" where
  "hasVideoE imp = bindE (get imp ''video'') (\<lambda>video. Inr (truthy video))"

definition ctvVideoRules :: "engine \<Rightarrow> jsval \<Rightarrow> nat \<Rightarrow> thrown + ValidationIssue list" where
  "ctvVideoRules E imp index =
     bindE (get imp ''video'') (\<lambda>video.
       if \<not> truthy video then Inr []
       else
         let basePath = ''BidRequest.imp['' @ digits index @ ''].video'';
             pos = propOf video ''pos'';
             w = propOf video ''w'';
             h = propOf video ''h''
         in seqE
          [Inr (if pos = Undefined
                then [issue ''EQ-CTV-051'' Error (basePath @ ''.pos'')
                        ''CTV: imp.video.pos must be defined''
                        Undefined (Some ''Integer position value'')]
                else when (pos \<noteq> Num (Fin 7))
                       (issue ''EQ-CTV-052'' Error (basePath @ ''.pos'')
                          ''CTV: imp.video.pos must be set to 7 (Full Screen)''
                          pos (Some ''7''))),
           if truthy w \<and> truthy h
           then bindE (js_div E w h) (\<lambda>aspectRatio.
                  if num_lt (Fin (1 / 10)) (num_abs (num_sub aspectRatio (Fin (16 / 9)))) = Some True
                  then bindE (ToString E w) (\<lambda>ws. bindE (ToString E h) (\<lambda>hs.
                         Inr [issue ''EQ-CTV-053'' Error basePath
                                ''CTV: imp.video.h and imp.video.w should match a 16:9 aspect ratio''
                                (Str (ws @ ''x'' @ hs @ '' ('' @ toFixed E aspectRatio 2 @ '':1)''))
                                (Some ''16:9 aspect ratio'')]))
                  else Inr [])
           else Inr []])"

definition ctvVideoRequirements :: "jsval \<Rightarrow> nat \<Rightarrow> thrown + ValidationIssue list" where
  "ctvVideoRequirements imp index =
     bindE (get imp ''video'') (\<lambda>video.
       if \<not> truthy video then Inr []
       else
         let basePath = ''BidRequest.imp['' @ digits index @ ''].video'';
             placement = propOf video ''placement'';
             linearity = propOf video ''linearity'';
             pos = propOf video ''pos''
         in Inr
           (when (placement \<noteq> Num (Fin 1))
              (issue ''CTV-005'' Error (basePath @ ''.placement'')
                 ''CTV video placement must be 1 (In-Stream)''
                 placement (Some ''1''))
            @ when (linearity \<noteq> Num (Fin 1))
              (issue ''CTV-006'' Error (basePath @ ''.linearity'')
                 ''CTV video linearity must be 1 (Linear)''
                 linearity (Some ''1''))
            @ when (pos \<noteq> Num (Fin 7))
              (issue ''CTV-007'' Error (basePath @ ''.pos'')
                 ''CTV video pos must be 7 (Full Screen)''
                 pos (Some ''7''))))"

definition validateCTV :: "engine \<Rightarrow> jsval \<Rightarrow> thrown + ValidationIssue list" where
  "validateCTV E bidRequest =
     (if nullish bidRequest then Inl TypeError
      else
        let device = propOf bidRequest ''device'';
            app = propOf bidRequest ''app'';
            imp = propOf bidRequest ''imp'';
            make = propOf device ''make'';
            model = propOf device ''model'';
            ids = getq (propOf device ''ext'') ''ids''
        in
        if \<not> truthy device \<or> propOf device ''devicetype'' \<noteq> Num (Fin 5) then Inr []
        else seqE
         [Inr (when (\<not> truthy app)
                 (issue ''EQ-CTV-054'' Error ''BidRequest.app''
                    ''app object must be defined for CTV requests''
                    Undefined (Some ''App object for CTV application''))),
          if truthy imp then forEach imp (ctvVideoRules E) else Inr [],
          whenE (if \<not> truthy imp then Inr True else notE (some imp hasVideoE))
            (issue ''CTV-001'' Error ''BidRequest.imp''
               ''CTV requests must contain video impressions''
               Undefined (Some ''At least one impression with video object'')),
          Inr (when (\<not> truthy app)
                 (issue ''CTV-002'' Error ''BidRequest.app''
                    ''CTV requests must contain app object''
                    Undefined (Some ''App object for CTV application''))),
          Inr (when (\<not> truthy (propOf device ''ifa'') \<and> \<not> truthy (getq ids ''idfa'')
                     \<and> \<not> truthy (getq ids ''rida''))
                 (issue ''CTV-003'' Error ''BidRequest.device''
                    ''CTV requests must contain device.ifa or equivalent ID''
                    Undefined (Some ''Valid device identifier''))),
          if \<not> truthy make \<or> \<not> truthy model
          then bindE (ToString E make) (\<lambda>mk. bindE (ToString E model) (\<lambda>md.
                 Inr [issue ''CTV-004'' Error ''BidRequest.device''
                        ''CTV requests must contain device.make and device.model''
                        (Str (''make: '' @ mk @ '', model: '' @ md))
                        (Some ''Both make and model strings'')]))
          else Inr [],
          if truthy imp then forEach imp ctvVideoRequirements else Inr []])"

subsection \<open>Supply chain, first rule\<close>

definition validateEquativRules :: "jsval \<Rightarrow> thrown + ValidationIssue list" where
  "validateEquativRules bidRequest =
     (if nullish bidRequest then Inl TypeError
      else
        let source = propOf bidRequest ''source''
        in Inr (when (\<not> truthy (getq source ''schain'')
                      \<and> \<not> truthy (getq (getq source ''ext'') ''schain''))
                  (issue ''EQ-Source-021'' Error ''BidRequest.source.schain''
                     ''source.schain must be defined''
                     Undefined (Some ''Supply chain object''))))"

subsection \<open>Video, native and banner\<close>

definition videoRules :: "engine \<Rightarrow> jsval \<Rightarrow> nat \<Rightarrow> thrown + ValidationIssue list" where
  \<open>videoRules E imp index =
     bindE (get imp ''video'') (\<lambda>video.
       if \<not> truthy video then Inr []
       else
         let basePath = ''BidRequest.imp['' @ digits index @ ''].video'';
             mimes = propOf video ''mimes'';
             minduration = propOf video ''minduration'';
             maxduration = propOf video ''maxduration'';
             protocols = propOf video ''protocols'';
             w = propOf video ''w'';
             h = propOf video ''h'';
             linearity = propOf video ''linearity'';
             placement = propOf video ''placement'';
             startdelay = propOf video ''startdelay''
         in seqE
          [Inr (if \<not> truthy mimes \<or> \<not> isArray mimes \<or> elems mimes = []
                then [issue ''Video-V-001'' Error (basePath @ ''.mimes'')
                        ''video.mimes must be present and be a non-empty array of strings''
                        mimes (Some ''Array of MIME types (e.g., ["video/mp4"])'')]
                else if \<not> list_all isString (elems mimes)
                then [issue ''Video-V-002'' Error (basePath @ ''.mimes'')
                        ''video.mimes must contain only strings''
                        mimes (Some ''Array of string MIME types'')]
                else when (Str ''video/mp4'' \<notin> set (elems mimes))
                       (issue ''Video-V-003'' Warning (basePath @ ''.mimes'')
                          ''video.mimes should typically include "video/mp4"''
                          mimes (Some ''Array including "video/mp4"''))),
           Inr (when (minduration = Undefined \<or> \<not> isInteger minduration)
                  (issue ''Video-V-004'' Error (basePath @ ''.minduration'')
                     ''video.minduration must be present and be an integer''
                     minduration (Some ''Integer (seconds)''))),
           Inr (when (maxduration = Undefined \<or> \<not> isInteger maxduration)
                  (issue ''Video-V-005'' Error (basePath @ ''.maxduration'')
                     ''video.maxduration must be present and be an integer''
                     maxduration (Some ''Integer (seconds)''))),
           if truthy minduration \<and> truthy maxduration
           then bindE (js_lt E maxduration minduration) (\<lambda>less.
                  if less
                  then bindE (ToString E minduration) (\<lambda>mn. bindE (ToString E maxduration) (\<lambda>mx.
                         Inr [issue ''Video-V-006'' Error basePath
                                ''video.maxduration must be greater than or equal to minduration''
                                (Str (''min: '' @ mn @ '', max: '' @ mx))
                                (Some ''maxduration >= minduration'')]))
                  else Inr [])
           else Inr [],
           Inr (when (\<not> truthy protocols \<or> \<not> isArray protocols \<or> elems protocols = [])
                  (issue ''Video-V-007'' Error (basePath @ ''.protocols'')
                     ''video.protocols must be present and be a non-empty array of integers''
                     protocols (Some ''Array of protocol integers''))),
           Inr (when (w = Undefined \<or> \<not> isInteger w \<or> num_lt (Fin 0) (numOf w) = Some False)
                  (issue ''Video-V-008'' Error (basePath @ ''.w'')
                     ''video.w (width) must be present and be a positive integer''
                     w (Some ''Positive integer''))),
           Inr (when (h = Undefined \<or> \<not> isInteger h \<or> num_lt (Fin 0) (numOf h) = Some False)
                  (issue ''Video-V-009'' Error (basePath @ ''.h'')
                     ''video.h (height) must be present and be a positive integer''
                     h (Some ''Positive integer''))),
           Inr (when (linearity = Undefined \<or> \<not> isInteger linearity)
                  (issue ''Video-V-010'' Error (basePath @ ''.linearity'')
                     ''video.linearity must be present and be an integer''
                     linearity (Some ''Integer (1=linear, 2=non-linear)''))),
           Inr (when (placement = Undefined \<or> \<not> isInteger placement)
                  (issue ''Video-V-011'' Error (basePath @ ''.placement'')
                     ''video.placement must be present and be an integer''
                     placement (Some ''Integer placement type''))),
           Inr (when (startdelay = Undefined \<or> \<not> isInteger startdelay)
                  (issue ''Video-V-012'' Error (basePath @ ''.startdelay'')
                     ''video.startdelay must be an integer''
                     startdelay (Some ''Integer start delay'')))])\<close>

definition validateVideo :: "engine \<Rightarrow> jsval \<Rightarrow> thrown + ValidationIssue list" where
  "validateVideo E bidRequest =
     (if nullish bidRequest then Inl TypeError
      else
        let imp = propOf bidRequest ''imp''
        in if \<not> truthy imp then Inr [] else forEach imp (videoRules E))"

text \<open>
  The assets of a native request are checked inside a \<^verbatim>\<open>try\<close> block. \<open>assetRules\<close> gives
  the issues pushed and says whether the loop came to its end: an asset that is
  \<^verbatim>\<open>null\<close> throws, the \<^verbatim>\<open>catch\<close> clause then adds \<^verbatim>\<open>Native-N-006\<close> to what was pushed
  before.
\<close>

fun assetRules :: "string \<Rightarrow> nat \<Rightarrow> jsval list \<Rightarrow> ValidationIssue list \<times> bool" where
  "assetRules basePath assetIndex [] = ([], True)"
| "assetRules basePath assetIndex (asset # assets) =
     (if nullish asset then ([], False)
      else
        (case assetRules basePath (Suc assetIndex) assets of
           (rest, completed) \<Rightarrow>
             (when (\<not> truthy (propOf asset ''id''))
                (issue ''Native-N-004'' Error
                   (basePath @ ''.request.assets['' @ digits assetIndex @ ''].id'')
                   ''Each native asset must have an id''
                   Undefined (Some ''Integer asset ID''))
              @ when (filter (\<lambda>b. b)
                        [truthy (propOf asset ''title''), truthy (propOf asset ''img''),
                         truthy (propOf asset ''video''), truthy (propOf asset ''data'')] = [])
                (issue ''Native-N-005'' Error
                   (basePath @ ''.request.assets['' @ digits assetIndex @ '']'')
                   ''Each asset must have either title, img, video, or data''
                   Undefined (Some ''One of: title, img, video, or data object''))
              @ rest,
              completed)))"

definition nativeRules :: "engine \<Rightarrow> jsval \<Rightarrow> nat \<Rightarrow> thrown + ValidationIssue list" where
  \<open>nativeRules E imp index =
     bindE (get imp ''native'') (\<lambda>native.
       if \<not> truthy native then Inr []
       else
         let basePath = ''BidRequest.imp['' @ digits index @ ''].native'';
             request = propOf native ''request'';
             invalidJSON =
               issue ''Native-N-006'' Error (basePath @ ''.request'')
                 ''native.request must be valid JSON''
                 request (Some ''Valid JSON string'')
         in
         if \<not> truthy request \<or> \<not> isString request
         then Inr [issue ''Native-N-001'' Error (basePath @ ''.request'')
                     ''native.request must be present and be a string''
                     request (Some ''JSON string'')]
         else
           (case JSON_parse E (strOf request) of
              None \<Rightarrow> Inr [invalidJSON]
            | Some nativeRequest \<Rightarrow>
                if nullish nativeRequest then Inr [invalidJSON]
                else
                  let assets = propOf nativeRequest ''assets''
                  in Inr
                    (when (\<not> truthy (propOf nativeRequest ''ver''))
                       (issue ''Native-N-002'' Error (basePath @ ''.request.ver'')
                          ''Native request must contain ver (version string)''
                          Undefined (Some ''Version string (e.g., "1.2")''))
                     @ (if \<not> truthy assets \<or> \<not> isArray assets \<or> elems assets = []
                        then [issue ''Native-N-003'' Error (basePath @ ''.request.assets'')
                                ''Native request must contain a non-empty assets array''
                                assets (Some ''Non-empty array of asset objects'')]
                        else
                          (case assetRules basePath 0 (elems assets) of
                             (found, completed) \<Rightarrow>
                               found @ (if completed then [] else [invalidJSON]))))))\<close>

definition validateNative :: "engine \<Rightarrow> jsval \<Rightarrow> thrown + ValidationIssue list" where
  "validateNative E bidRequest =
     (if nullish bidRequest then Inl TypeError
      else
        let imp = propOf bidRequest ''imp''
        in if \<not> truthy imp then Inr [] else forEach imp (nativeRules E))"

definition formatRules :: "string \<Rightarrow> jsval \<Rightarrow> nat \<Rightarrow> thrown + ValidationIssue list" where
  "formatRules basePath format formatIndex =
     (if nullish format then Inl TypeError
      else Inr (when (\<not> truthy (propOf format ''w'') \<or> \<not> truthy (propOf format ''h''))
                  (issue ''Banner-B-002'' Error
                     (basePath @ ''.format['' @ digits formatIndex @ '']'')
                     ''Each format entry must have w and h''
                     format (Some ''Object with w and h properties''))))"

definition bannerRules :: "jsval \<Rightarrow> nat \<Rightarrow> thrown + ValidationIssue list" where
  "bannerRules imp index =
     bindE (get imp ''banner'') (\<lambda>banner.
       if \<not> truthy banner then Inr []
       else
         let basePath = ''BidRequest.imp['' @ digits index @ ''].banner'';
             hasWH = (propOf banner ''w'' \<noteq> Undefined \<and> propOf banner ''h'' \<noteq> Undefined);
             hasFormat = (truthy (propOf banner ''format'') \<and> isArray (propOf banner ''format''))
         in seqE
          [Inr (when (\<not> hasWH \<and> \<not> hasFormat)
                  (issue ''Banner-B-001'' Error basePath
                     ''banner must contain either w/h or format array''
                     Undefined (Some ''Width/height integers or format array''))),
           if hasFormat then forEach (propOf banner ''format'') (formatRules basePath)
           else Inr []])"

definition validateBanner :: "jsval \<Rightarrow> thrown + ValidationIssue list" where
  "validateBanner bidRequest =
     (if nullish bidRequest then Inl TypeError
      else
        let imp = propOf bidRequest ''imp''
        in if \<not> truthy imp then Inr [] else forEach imp bannerRules)"

subsection \<open>Site, user, regulations and source\<close>

definition validateSite :: "engine \<Rightarrow> jsval \<Rightarrow> thrown + ValidationIssue list" where
  "validateSite E bidRequest =
     (if nullish bidRequest then Inl TypeError
      else
        let site = propOf bidRequest ''site'';
            page = propOf site ''page'';
            publisher = propOf site ''publisher''
        in
        if \<not> truthy site then Inr []
        else Inr
          ((if \<not> truthy page \<or> \<not> isString page
            then [issue ''Core-Site-001'' Error ''BidRequest.site.page''
                    ''site.page must be present and be a string URL''
                    page (Some ''Valid URL string'')]
            else when (\<not> URL_ok E (strOf page))
                   (issue ''Core-Site-002'' Error ''BidRequest.site.page''
                      ''site.page must be a valid URL''
                      page (Some ''Valid URL'')))
           @ (if \<not> truthy publisher
              then [issue ''Core-Site-003'' Error ''BidRequest.site.publisher''
                      ''site.publisher object must be present''
                      Undefined (Some ''Publisher object with id'')]
              else when (\<not> truthy (propOf publisher ''id'')
                         \<or> \<not> isString (propOf publisher ''id''))
                     (issue ''Core-Site-004'' Error ''BidRequest.site.publisher.id''
                        ''site.publisher.id must be present and be a string''
                        (propOf publisher ''id'') (Some ''Non-empty string'')))))"

definition validateUser :: "jsval \<Rightarrow> thrown + ValidationIssue list" where
  "validateUser bidRequest =
     (if nullish bidRequest then Inl TypeError
      else
        let user = propOf bidRequest ''user''
        in
        if \<not> truthy user then Inr []
        else Inr
          (when (\<not> truthy (propOf user ''id''))
             (issue ''Core-User-001'' Warning ''BidRequest.user.id''
                ''user.id (Exchange User ID) should be present''
                Undefined (Some ''String user identifier''))
           @ when (\<not> truthy (propOf user ''buyeruid''))
             (issue ''Core-User-002'' Warning ''BidRequest.user.buyeruid''
                ''user.buyeruid (DSP User ID) should be present for DSPs''
                Undefined (Some ''DSP-specific user identifier''))))"

definition validateRegs :: "jsval \<Rightarrow> thrown + ValidationIssue list" where
  "validateRegs bidRequest =
     (if nullish bidRequest then Inl TypeError
      else
        let regs = propOf bidRequest ''regs'';
            coppa = propOf regs ''coppa'';
            gdpr = getq (propOf regs ''ext'') ''gdpr''
        in
        if \<not> truthy regs then Inr []
        else Inr
          (when (coppa \<noteq> Undefined \<and> coppa \<noteq> Num (Fin 0) \<and> coppa \<noteq> Num (Fin 1))
             (issue ''Core-Regs-001'' Error ''BidRequest.regs.coppa''
                ''regs.coppa must be 0 or 1''
                coppa (Some ''0 or 1''))
           @ when (gdpr \<noteq> Undefined \<and> gdpr \<noteq> Num (Fin 0) \<and> gdpr \<noteq> Num (Fin 1))
             (issue ''Core-Regs-002'' Warning ''BidRequest.regs.ext.gdpr''
                ''regs.ext.gdpr must be 0 or 1''
                gdpr (Some ''0 or 1''))
           @ when (gdpr = Num (Fin 1)
                   \<and> \<not> truthy (getq (getq (propOf bidRequest ''user'') ''ext'') ''consent''))
             (issue ''Core-Regs-003'' Error ''BidRequest.user.ext.consent''
                ''user.ext.consent (TCF String) must be present when gdpr=1''
                Undefined (Some ''Valid TCF consent string''))
           @ when (truthy (propOf regs ''gpp'') \<and> \<not> truthy (propOf regs ''gpp_sid''))
             (issue ''Core-Regs-004'' Error ''BidRequest.regs.gpp_sid''
                ''regs.gpp_sid must be present when gpp is specified''
                Undefined (Some ''Array of GPP section IDs''))))"

definition nodeRules :: "jsval \<Rightarrow> nat \<Rightarrow> thrown + ValidationIssue list" where
  "nodeRules node index =
     (if nullish node then Inl TypeError
      else Inr (when (\<not> truthy (propOf node ''asi'') \<or> \<not> truthy (propOf node ''sid'')
                      \<or> propOf node ''hp'' = Undefined)
                  (issue ''Core-Source-004'' Error
                     (''BidRequest.source.schain.nodes['' @ digits index @ '']'')
                     ''Each schain node must contain asi, sid, and hp''
                     node (Some ''Object with asi, sid, and hp properties''))))"

definition validateSource :: "jsval \<Rightarrow> thrown + ValidationIssue list" where
  "validateSource bidRequest =
     (if nullish bidRequest then Inl TypeError
      else
        let schain = propOf (propOf bidRequest ''source'') ''schain'';
            nodes = propOf schain ''nodes''
        in
        if \<not> truthy (propOf bidRequest ''source'') then Inr []
        else if \<not> truthy schain
        then Inr [issue ''Core-Source-001'' Error ''BidRequest.source.schain''
                    ''source.schain (SupplyChain Object) must be present''
                    Undefined (Some ''SupplyChain object'')]
        else seqE
          [Inr (when (propOf schain ''complete'' \<noteq> Num (Fin 1))
                  (issue ''Core-Source-002'' Error ''BidRequest.source.schain.complete''
                     ''schain.complete must be 1''
                     (propOf schain ''complete'') (Some ''1''))),
           if \<not> truthy nodes \<or> \<not> isArray nodes \<or> elems nodes = []
           then Inr [issue ''Core-Source-003'' Error ''BidRequest.source.schain.nodes''
                       ''schain.nodes must be a non-empty array''
                       nodes (Some ''Non-empty array of supply chain nodes'')]
           else forEach nodes nodeRules])"

subsection \<open>Digital out-of-home\<close>

definition hasDoohE :: "jsval \<Rightarrow> thrown + bool" where
  "hasDoohE imp = bindE (get imp ''dooh'') (\<lambda>dooh. Inr (truthy dooh))"

definition doohRules :: "jsval \<Rightarrow> nat \<Rightarrow> thrown + ValidationIssue list" where
  "doohRules dooh index =
     (if nullish dooh then Inl TypeError
      else Inr
        (when (\<not> truthy (propOf dooh ''venuetype''))
           (issue ''DOOH-002'' Error (''dooh['' @ digits index @ ''].venuetype'')
              ''DOOH object must contain venuetype''
              Undefined (Some ''Venue type identifier''))
         @ when (\<not> truthy (propOf dooh ''venuetypetax''))
           (issue ''DOOH-003'' Warning (''dooh['' @ digits index @ ''].venuetypetax'')
              ''DOOH object should contain venuetypetax''
              Undefined (Some ''Venue type taxonomy identifier''))))"

definition validateDOOH :: "jsval \<Rightarrow> thrown + ValidationIssue list" where
  "validateDOOH bidRequest =
     (if nullish bidRequest then Inl TypeError
      else
        let device = propOf bidRequest ''device'';
            imp = propOf bidRequest ''imp'';
            dooh = propOf bidRequest ''dooh''
        in
        if \<not> truthy device \<or> propOf device ''devicetype'' \<noteq> Num (Fin 6) then Inr []
        else
          bindE (if nullish imp then Inr False else some imp hasDoohE) (\<lambda>impHasDooh.
          bindE (if truthy imp
                 then bindE (filterE hasDoohE (elems imp)) (\<lambda>imps.
                        Inr (map (\<lambda>i. propOf i ''dooh'') imps))
                 else Inr []) (\<lambda>impDoohs.
          bindE (forEach (Arr ((if truthy dooh then [dooh] else []) @ impDoohs)) doohRules)
            (\<lambda>found.
              Inr (when (\<not> (impHasDooh \<or> truthy dooh))
                     (issue ''DOOH-001'' Error ''BidRequest''
                        ''DOOH requests must contain dooh object in impression or bid request''
                        Undefined (Some ''DOOH object with venue information''))
                   @ found)))))"

subsection \<open>The cross-object pass\<close>

definition uidRules :: "nat \<Rightarrow> jsval \<Rightarrow> nat \<Rightarrow> thrown + ValidationIssue list" where
  "uidRules index uid uidIndex =
     (if nullish uid then Inl TypeError
      else Inr (when (\<not> truthy (propOf uid ''id''))
                  (issue ''Advanced-006'' Error
                     (''BidRequest.user.eids['' @ digits index @ ''].uids['' @ digits uidIndex
                        @ '']'')
                     ''Each UID must have an id''
                     Undefined (Some ''Object with id property''))))"

definition eidRules :: "jsval \<Rightarrow> nat \<Rightarrow> thrown + ValidationIssue list" where
  "eidRules eid index =
     (if nullish eid then Inl TypeError
      else if \<not> truthy (propOf eid ''source'') \<or> \<not> truthy (propOf eid ''uids'')
      then Inr [issue ''Advanced-005'' Error (''BidRequest.user.eids['' @ digits index @ '']'')
                  ''Each EID must have source and uids''
                  eid (Some ''Object with source and uids properties'')]
      else if isArray (propOf eid ''uids'') then forEach (propOf eid ''uids'') (uidRules index)
      else Inr [])"

definition validateAdvanced :: "engine \<Rightarrow> jsval \<Rightarrow> thrown + ValidationIssue list" where
  "validateAdvanced E bidRequest =
     (case JSON_stringify E bidRequest of
        None \<Rightarrow> Inl TypeError
      | Some jsonString \<Rightarrow>
          if nullish bidRequest then Inl TypeError
          else
            let macros = fst (String_match_global jsonString macroPattern);
                is_app = getq (getq (propOf bidRequest ''device'') ''ext'') ''is_app'';
                eids = getq (propOf bidRequest ''user'') ''eids''
            in seqE
             [Inr (when (macros \<noteq> [])
                     (issue ''Advanced-001'' Error ''BidRequest''
                        ''Bid request contains un-replaced macros''
                        (Str (join '', '' macros)) (Some ''No macros in bid request''))),
              Inr (when (is_app = Num (Fin 1) \<and> \<not> truthy (propOf bidRequest ''app''))
                     (issue ''Advanced-002'' Error ''BidRequest''
                        ''device.ext.is_app=1 but no app object present''
                        Undefined (Some ''App object when is_app=1''))),
              Inr (when (is_app = Num (Fin 0) \<and> \<not> truthy (propOf bidRequest ''site''))
                     (issue ''Advanced-003'' Error ''BidRequest''
                        ''device.ext.is_app=0 but no site object present''
                        Undefined (Some ''Site object when is_app=0''))),
              if \<not> truthy eids then Inr []
              else if \<not> isArray eids
              then Inr [issue ''Advanced-004'' Warning ''BidRequest.user.eids''
                          ''user.eids must be an array''
                          eids (Some ''Array of EID objects'')]
              else forEach eids eidRules])"

section \<open>The orchestrator\<close>

text \<open>
  \<open>validateBidRequest\<close> for one input and a given state of the table of store patterns.
  It answers what the call returns or throws (a rejected promise is \<open>Inl\<close>), and the
  table as the call leaves it. Each validator pushes to the one list \<^verbatim>\<open>issues\<close>; here
  each returns what it pushes and the lists are appended in the order of the calls.
\<close>

definition validateBidRequest ::
  "engine \<Rightarrow> (string \<times> StoreConfig) list \<Rightarrow> string
     \<Rightarrow> (thrown + BidRequestValidationResult) \<times> (string \<times> StoreConfig) list" where
  "validateBidRequest E table jsonString =
     (case JSON_parse E jsonString of
        None \<Rightarrow> (Inl InvalidJSONFormat, table)
      | Some bidRequest \<Rightarrow>
          (case detectBidRequestCharacteristics E bidRequest of
             Inl e \<Rightarrow> (Inl e, table)
           | Inr characteristics \<Rightarrow>
               (case seqE [validateCoreBidRequest E bidRequest,
                           validateImpressions E bidRequest] of
                  Inl e \<Rightarrow> (Inl e, table)
                | Inr early \<Rightarrow>
                    (case validateApp E table bidRequest of
                       (appResult, table') \<Rightarrow>
                         (case seqE [appResult,
                                     validateSite E bidRequest,
                                     validateDevice E bidRequest,
                                     validateUser bidRequest,
                                     validateRegs bidRequest,
                                     validateSource bidRequest,
                                     validateVideo E bidRequest,
                                     validateNative E bidRequest,
                                     validateBanner bidRequest,
                                     validateCTV E bidRequest,
                                     validateDOOH bidRequest,
                                     validateAdvanced E bidRequest,
                                     validateEquativRules bidRequest] of
                            Inl e \<Rightarrow> (Inl e, table')
                          | Inr late \<Rightarrow>
                              (Inr \<lparr> detectedCharacteristics = characteristics,
                                     issues = early @ late,
                                     isValid =
                                       (filter (\<lambda>i. severity i = Error) (early @ late) = []) \<rparr>,
                               table'))))))"

section \<open>Examples\<close>

text \<open>
  The JSON texts of the examples, each with the tree that \<^verbatim>\<open>JSON.parse\<close> builds from it.
  \<open>exampleEngine\<close> parses these texts and rejects every other one, accepts the one URL
  of the examples, and is not asked for anything else by them.
\<close>

definition exampleTexts :: "(string \<times> jsval) list" where
  \<open>exampleTexts =
     [(''{}'', Obj []),
      (''null'', Null),
      (''{"imp":5}'', Obj [(''imp'', Num (Fin 5))]),
      (''{"imp":[{"video":{}},{"video":{}}]}'',
       Obj [(''imp'', Arr [Obj [(''video'', Obj [])], Obj [(''video'', Obj [])]])]),
      (''{"imp":[{"banner":{}}]}'',
       Obj [(''imp'', Arr [Obj [(''banner'', Obj [])]])]),
      (''{"device":{"devicetype":5},"imp":[{"video":{"w":640,"h":480}}]}'',
       Obj [(''device'', Obj [(''devicetype'', Num (Fin 5))]),
            (''imp'', Arr [Obj [(''video'', Obj [(''w'', Num (Fin 640)), (''h'', Num (Fin 480))])]])]),
      (''{"app":{"storeurl":"https://apps.apple.com/us/app/id123456789","bundle":"123456789"}}'',
       Obj [(''app'', Obj [(''storeurl'', Str ''https://apps.apple.com/us/app/id123456789''),
                           (''bundle'', Str ''123456789'')])]),
      (''{"app":{"storeurl":"https://apps.apple.com/us/app/id123456789","bundle":"999"}}'',
       Obj [(''app'', Obj [(''storeurl'', Str ''https://apps.apple.com/us/app/id123456789''),
                           (''bundle'', Str ''999'')])]),
      (''{"regs":{"ext":{"gdpr":1}}}'',
       Obj [(''regs'', Obj [(''ext'', Obj [(''gdpr'', Num (Fin 1))])])]),
      (''{"imp":[{"secure":2}]}'',
       Obj [(''imp'', Arr [Obj [(''secure'', Num (Fin 2))]])])]\<close>

definition exampleEngine :: engine where
  "exampleEngine =
     \<lparr> JSON_parse = map_of exampleTexts,
       URL_ok = (\<lambda>s. s = ''https://apps.apple.com/us/app/id123456789''),
       NumberToString = (\<lambda>r. []),
       StringToNumber = (\<lambda>s. NaN),
       FunctionToString = (\<lambda>f. []) \<rparr>"

section \<open>Notions used by the properties\<close>

text \<open>No pattern of the table has the \<^verbatim>\<open>g\<close> flag.\<close>

definition stateless :: "(string \<times> StoreConfig) list \<Rightarrow> bool" where
  "stateless table =
     list_all (\<lambda>(k, c). list_all (\<lambda>p. \<not> global p) (patterns c) \<and> \<not> global (bundlePattern c))
       table"

text \<open>
  The identifiers of the bundle-mismatch rule, one for each platform of the table:
  \<^verbatim>\<open>EQ-App-${platform.toUpperCase()}-015\<close>.
\<close>

definition mismatchId :: "string \<Rightarrow> bool" where
  "mismatchId i = list_ex (\<lambda>(k, c). i = ''EQ-App-'' @ toUpperCase k @ ''-015'') STORE_URL_PATTERNS"

text \<open>
  The identifiers of all the issues that \<open>validateStoreUrlAndBundle\<close> can push:
  \<^verbatim>\<open>EQ-App-016\<close> when no pattern matches the URL and, for each platform of the table, the
  bundle-format rule \<^verbatim>\<open>EQ-App-${platform.toUpperCase()}-010\<close> and the bundle-mismatch rule.
\<close>

definition crossCheckId :: "string \<Rightarrow> bool" where
  "crossCheckId i =
     (i = ''EQ-App-016''
      \<or> list_ex (\<lambda>(k, c). i = ''EQ-App-'' @ toUpperCase k @ ''-010'') STORE_URL_PATTERNS
      \<or> mismatchId i)"

text \<open>No issue of the list comes from the cross-check of store URL and bundle.\<close>

definition noCrossCheck :: "ValidationIssue list \<Rightarrow> bool" where
  "noCrossCheck found = list_all (\<lambda>i. \<not> crossCheckId (issue_id i)) found"

section \<open>Properties\<close>

subsection \<open>Sequencing\<close>

lemma seqE_Inr_elem:
  "seqE rs = Inr xs \<Longrightarrow> r \<in> set rs \<Longrightarrow> \<exists>ys. r = Inr ys \<and> set ys \<subseteq> set xs"
proof (induction rs arbitrary: xs)
  case Nil
  then show ?case by simp
next
  case (Cons a rs)
  from Cons.prems(1) obtain as bs where
    h: "a = Inr as" "seqE rs = Inr bs" "xs = as @ bs"
    by (auto split: sum.splits)
  from Cons.prems(2) consider "r = a" | "r \<in> set rs" by auto
  then show ?case
  proof cases
    case 1
    with h show ?thesis by auto
  next
    case 2
    from Cons.IH[OF h(2) 2] h(3) show ?thesis by auto
  qed
qed

lemma forEachFrom_Inr:
  "forEachFrom i xs f = Inr found \<Longrightarrow> k < length xs
     \<Longrightarrow> \<exists>ys. f (xs ! k) (i + k) = Inr ys \<and> set ys \<subseteq> set found"
proof (induction xs arbitrary: i k found)
  case Nil
  then show ?case by simp
next
  case (Cons x xs)
  from Cons.prems(1) obtain ys zs where
    h: "f x i = Inr ys" "forEachFrom (Suc i) xs f = Inr zs" "found = ys @ zs"
    by (auto split: sum.splits)
  show ?case
  proof (cases k)
    case 0
    with h show ?thesis by auto
  next
    case (Suc j)
    from Cons.IH[OF h(2), of j] Suc Cons.prems(2)
    obtain ws where "f (xs ! j) (Suc i + j) = Inr ws" "set ws \<subseteq> set zs" by auto
    with Suc h show ?thesis by auto
  qed
qed

lemma impressionsFrom_Inr:
  "impressionsFrom E ids i xs = Inr found \<Longrightarrow> k < length xs
     \<Longrightarrow> \<exists>ids' ys ids''. impressionRules E ids' (xs ! k) (i + k) = Inr (ys, ids'')
           \<and> set ys \<subseteq> set found"
proof (induction xs arbitrary: ids i k found)
  case Nil
  then show ?case by simp
next
  case (Cons x xs)
  from Cons.prems(1) obtain ys ids1 zs where
    h: "impressionRules E ids x i = Inr (ys, ids1)"
       "impressionsFrom E ids1 (Suc i) xs = Inr zs" "found = ys @ zs"
    by (auto split: sum.splits prod.splits)
  show ?case
  proof (cases k)
    case 0
    with h show ?thesis by auto
  next
    case (Suc j)
    from Cons.IH[OF h(2), of j] Suc Cons.prems(2)
    obtain ids' ws ids'' where
      "impressionRules E ids' (xs ! j) (Suc i + j) = Inr (ws, ids'')" "set ws \<subseteq> set zs"
      by auto
    with Suc h show ?thesis by auto
  qed
qed

text \<open>What a returned result is made of.\<close>

lemma validateBidRequest_Inr:
  assumes "fst (validateBidRequest E table s) = Inr r"
  shows "\<exists>br early late.
           JSON_parse E s = Some br
         \<and> seqE [validateCoreBidRequest E br, validateImpressions E br] = Inr early
         \<and> seqE [fst (validateApp E table br), validateSite E br, validateDevice E br,
                  validateUser br, validateRegs br, validateSource br, validateVideo E br,
                  validateNative E br, validateBanner br, validateCTV E br, validateDOOH br,
                  validateAdvanced E br, validateEquativRules br] = Inr late
         \<and> issues r = early @ late
         \<and> isValid r = (filter (\<lambda>i. severity i = Error) (early @ late) = [])"
  using assms
  by (auto simp del: seqE.simps simp: validateBidRequest_def
           split: option.splits sum.splits prod.splits)

lemma digits_0: "digits 0 = ''0''"
  by code_simp

subsection \<open>The verdict\<close>

text \<open>
  C1. Whenever \<open>validateBidRequest\<close> returns a result, \<open>isValid\<close> is true exactly when no
  issue of the result has severity \<^verbatim>\<open>error\<close>; warnings and infos do not count.
\<close>

theorem isValid_iff_no_error:
  "fst (validateBidRequest E table s) = Inr r
     \<Longrightarrow> isValid r = (\<forall>i \<in> set (issues r). severity i \<noteq> Error)"
  by (drule validateBidRequest_Inr) (auto simp: filter_empty_conv)

theorem isValid_iff_no_error_witness:
  "\<exists>r. fst (validateBidRequest exampleEngine STORE_URL_PATTERNS ''{}'') = Inr r
       \<and> \<not> isValid r \<and> (\<exists>i \<in> set (issues r). severity i = Error)"
proof -
  have "case fst (validateBidRequest exampleEngine STORE_URL_PATTERNS ''{}'') of
          Inl e \<Rightarrow> False | Inr r \<Rightarrow> \<not> isValid r"
    by code_simp
  then obtain r where
    r: "fst (validateBidRequest exampleEngine STORE_URL_PATTERNS ''{}'') = Inr r" "\<not> isValid r"
    by (auto split: sum.splits)
  from isValid_iff_no_error[OF r(1)] r(2) have "\<exists>i \<in> set (issues r). severity i = Error"
    by simp
  with r show ?thesis by blast
qed

text \<open>
  C2. When the input is not valid JSON, the call throws the format error, no rule has
  run, and there is no result, hence no issue list of any kind.
\<close>

theorem invalid_json_rejected:
  "JSON_parse E s = None \<Longrightarrow> validateBidRequest E table s = (Inl InvalidJSONFormat, table)"
  by (simp add: validateBidRequest_def)

theorem invalid_json_rejected_witness:
  "JSON_parse exampleEngine ''{'' = None
   \<and> validateBidRequest exampleEngine STORE_URL_PATTERNS ''{''
       = (Inl InvalidJSONFormat, STORE_URL_PATTERNS)"
proof -
  have h: "JSON_parse exampleEngine ''{'' = None" by code_simp
  from invalid_json_rejected[OF h] h show ?thesis by simp
qed

subsection \<open>Payloads of unexpected shape\<close>

text \<open>
  C3. The input \<^verbatim>\<open>{"imp":5}\<close> is valid JSON, and the call throws a TypeError: the
  characteristics detector calls \<^verbatim>\<open>bidRequest.imp.some\<close> on the number. No result is
  returned and no issue is emitted.
\<close>

theorem non_array_imp_throws:
  \<open>JSON_parse exampleEngine ''{"imp":5}'' = Some (Obj [(''imp'', Num (Fin 5))])
   \<and> fst (validateBidRequest exampleEngine STORE_URL_PATTERNS ''{"imp":5}'') = Inl TypeError\<close>
  by code_simp

subsection \<open>The primary type\<close>

text \<open>
  C4. For two impressions that both carry a video object the detected primary type is
  \<^verbatim>\<open>Video, Video\<close>: a label is pushed for every impression and the list is joined as it
  is; for an impression with a banner only it is \<^verbatim>\<open>Display\<close>, and it is \<^verbatim>\<open>Unknown\<close> for
  the empty object.
\<close>

theorem primaryType_repeats_labels:
  \<open>map (\<lambda>s. map_sum id (\<lambda>r. primaryType (detectedCharacteristics r))
              (fst (validateBidRequest exampleEngine STORE_URL_PATTERNS s)))
     [''{"imp":[{"video":{}},{"video":{}}]}'', ''{"imp":[{"banner":{}}]}'', ''{}'']
   = [Inr ''Video, Video'', Inr ''Display'', Inr ''Unknown'']\<close>
  by code_simp

subsection \<open>Consent\<close>

lemma falsy_ext: "\<not> truthy v \<Longrightarrow> propOf v ''ext'' = Undefined"
  by (cases v rule: truthy.cases)
     (simp_all add: inherited_def objectPrototype_def numberPrototype_def stringPrototype_def)

lemma validateRegs_consent:
  assumes "getq (getq (propOf br ''regs'') ''ext'') ''gdpr'' = Num (Fin 1)"
    and "\<not> truthy (getq (getq (propOf br ''user'') ''ext'') ''consent'')"
    and "validateRegs br = Inr ys"
  shows "issue ''Core-Regs-003'' Error ''BidRequest.user.ext.consent''
           ''user.ext.consent (TCF String) must be present when gdpr=1''
           Undefined (Some ''Valid TCF consent string'') \<in> set ys"
proof -
  have t: "truthy (propOf br ''regs'')"
  proof (rule ccontr)
    assume "\<not> truthy (propOf br ''regs'')"
    then have "propOf (propOf br ''regs'') ''ext'' = Undefined" by (rule falsy_ext)
    with assms(1) show False by (simp add: getq_def split: if_splits)
  qed
  have g: "getq (propOf (propOf br ''regs'') ''ext'') ''gdpr'' = Num (Fin 1)"
    using assms(1) by (simp add: getq_def split: if_splits)
  from assms(3) have "\<not> nullish br" by (auto simp: validateRegs_def split: if_splits)
  with assms(2,3) t g show ?thesis
    by (auto simp: validateRegs_def Let_def when_def)
qed

text \<open>
  C8. When \<^verbatim>\<open>regs.ext.gdpr\<close> is 1 and \<^verbatim>\<open>user.ext.consent\<close> is absent or falsy, every
  result that the call returns holds the error \<^verbatim>\<open>Core-Regs-003\<close> with the field path
  \<^verbatim>\<open>BidRequest.user.ext.consent\<close>, which reports the missing TCF consent string.
\<close>

theorem gdpr_requires_consent:
  assumes "fst (validateBidRequest E table s) = Inr r"
    and "JSON_parse E s = Some bidRequest"
    and "getq (getq (propOf bidRequest ''regs'') ''ext'') ''gdpr'' = Num (Fin 1)"
    and "\<not> truthy (getq (getq (propOf bidRequest ''user'') ''ext'') ''consent'')"
  shows "issue ''Core-Regs-003'' Error ''BidRequest.user.ext.consent''
           ''user.ext.consent (TCF String) must be present when gdpr=1''
           Undefined (Some ''Valid TCF consent string'') \<in> set (issues r)"
proof -
  from validateBidRequest_Inr[OF assms(1)] assms(2) obtain early late where
    l: "seqE [fst (validateApp E table bidRequest), validateSite E bidRequest,
              validateDevice E bidRequest, validateUser bidRequest, validateRegs bidRequest,
              validateSource bidRequest, validateVideo E bidRequest,
              validateNative E bidRequest, validateBanner bidRequest,
              validateCTV E bidRequest, validateDOOH bidRequest,
              validateAdvanced E bidRequest, validateEquativRules bidRequest] = Inr late"
    and i: "issues r = early @ late" by auto
  from seqE_Inr_elem[OF l, of "validateRegs bidRequest"] obtain ys where
    ys: "validateRegs bidRequest = Inr ys" "set ys \<subseteq> set late" by auto
  from validateRegs_consent[OF assms(3,4) ys(1)] ys(2) i show ?thesis by auto
qed

theorem gdpr_requires_consent_witness:
  \<open>\<exists>r. fst (validateBidRequest exampleEngine STORE_URL_PATTERNS ''{"regs":{"ext":{"gdpr":1}}}'')
          = Inr r
       \<and> issue ''Core-Regs-003'' Error ''BidRequest.user.ext.consent''
           ''user.ext.consent (TCF String) must be present when gdpr=1''
           Undefined (Some ''Valid TCF consent string'') \<in> set (issues r)\<close>
proof -
  let ?br = "Obj [(''regs'', Obj [(''ext'', Obj [(''gdpr'', Num (Fin 1))])])]"
  have \<open>case fst (validateBidRequest exampleEngine STORE_URL_PATTERNS
                    ''{"regs":{"ext":{"gdpr":1}}}'') of
          Inl e \<Rightarrow> False | Inr r \<Rightarrow> True\<close>
    by code_simp
  then obtain r where
    r: \<open>fst (validateBidRequest exampleEngine STORE_URL_PATTERNS ''{"regs":{"ext":{"gdpr":1}}}'')
          = Inr r\<close>
    by (auto split: sum.splits)
  have p: \<open>JSON_parse exampleEngine ''{"regs":{"ext":{"gdpr":1}}}'' = Some ?br\<close>
    by code_simp
  have g: "getq (getq (propOf ?br ''regs'') ''ext'') ''gdpr'' = Num (Fin 1)"
    by code_simp
  have c: "\<not> truthy (getq (getq (propOf ?br ''user'') ''ext'') ''consent'')"
    by code_simp
  from gdpr_requires_consent[OF r p g c] r show ?thesis by blast
qed

subsection \<open>State between calls\<close>

lemma RegExp_exec_nonglobal: "\<not> global R \<Longrightarrow> snd (RegExp_exec R s) = R"
  by (simp add: RegExp_exec_def Let_def split: option.splits prod.splits)

lemma RegExp_test_nonglobal: "\<not> global R \<Longrightarrow> snd (RegExp_test R s) = R"
  using RegExp_exec_nonglobal[of R s]
  by (cases "RegExp_exec R s") (simp add: RegExp_test_def)

lemma tryPatterns_same:
  "list_all (\<lambda>p. \<not> global p) ps \<Longrightarrow> snd (tryPatterns url ps) = ps"
proof (induction ps)
  case Nil
  then show ?case by simp
next
  case (Cons p ps)
  then have "snd (RegExp_exec p url) = p" "snd (tryPatterns url ps) = ps"
    by (simp_all add: RegExp_exec_nonglobal)
  then show ?case by (auto split: prod.splits option.splits)
qed

lemma tryPlatforms_same:
  "stateless table \<Longrightarrow> snd (tryPlatforms url b table) = table"
proof (induction table)
  case Nil
  then show ?case by simp
next
  case (Cons kc table)
  obtain k c where kc: "kc = (k, c)" by (cases kc)
  from Cons.prems kc have
    p: "snd (tryPatterns url (patterns c)) = patterns c"
    and bp: "snd (RegExp_test (bundlePattern c) b) = bundlePattern c"
    and rest: "snd (tryPlatforms url b table) = table"
    using Cons.IH by (simp_all add: stateless_def tryPatterns_same RegExp_test_nonglobal)
  show ?case
  proof (cases "tryPatterns url (patterns c)")
    case (Pair m ps')
    with p have ps': "ps' = patterns c" by simp
    show ?thesis
    proof (cases m)
      case None
      with Pair ps' kc rest show ?thesis
        by (cases "tryPlatforms url b table") simp
    next
      case (Some a)
      obtain i e cs where a: "a = (i, e, cs)" by (cases a)
      with Some Pair ps' kc bp show ?thesis
        by (cases "RegExp_test (bundlePattern c) b") (simp add: Let_def)
    qed
  qed
qed

lemma validateStoreUrlAndBundle_same:
  "stateless table \<Longrightarrow> snd (validateStoreUrlAndBundle table url b) = table"
  using tryPlatforms_same[of table url b]
  by (cases "tryPlatforms url b table")
     (auto simp: validateStoreUrlAndBundle_def split: option.splits)

lemma validateApp_same:
  "stateless table \<Longrightarrow> snd (validateApp E table br) = table"
  using validateStoreUrlAndBundle_same[of table
          "strOf (propOf (propOf br ''app'') ''storeurl'')"
          "strOf (propOf (propOf br ''app'') ''bundle'')"]
  by (cases "validateStoreUrlAndBundle table (strOf (propOf (propOf br ''app'') ''storeurl''))
          (strOf (propOf (propOf br ''app'') ''bundle''))")
     (simp add: validateApp_def Let_def)

lemma validateBidRequest_same:
  assumes "stateless table"
  shows "snd (validateBidRequest E table s) = table"
proof -
  have r: "b = table" if "validateApp E table br = (a, b)" for br a b
    using validateApp_same[OF assms, of E br] that by simp
  show ?thesis
    by (auto simp del: seqE.simps simp: validateBidRequest_def dest: r
             split: option.splits sum.splits prod.splits)
qed

lemma stateless_STORE_URL_PATTERNS: "stateless STORE_URL_PATTERNS"
  by (simp add: stateless_def STORE_URL_PATTERNS_def regex_def
        store_ios_def store_android_def store_roku_def store_amazon_def store_microsoft_def
        store_samsung_def store_lg_def store_playstation_def store_vizio_def store_philips_def
        store_huawei_def)

text \<open>
  C9. A call leaves the table of store patterns, the only state that outlives it, as the
  module created it; so a second call on the same input, run after the first, returns
  the same result with the same issues in the same order and the same characteristics,
  or throws the same error. The pattern of \<open>containsMacros\<close> carries the \<^verbatim>\<open>g\<close> flag but
  is a new object at every call.
\<close>

theorem validateBidRequest_deterministic:
  "snd (validateBidRequest E STORE_URL_PATTERNS s) = STORE_URL_PATTERNS
   \<and> validateBidRequest E (snd (validateBidRequest E STORE_URL_PATTERNS s)) s
       = validateBidRequest E STORE_URL_PATTERNS s"
  by (simp add: validateBidRequest_same[OF stateless_STORE_URL_PATTERNS])

subsection \<open>The secure flag\<close>

lemma impressionRules_secure:
  assumes "impressionRules E ids imp n = Inr (ys, ids')"
    and "propOf imp ''secure'' \<noteq> Undefined"
    and "propOf imp ''secure'' \<noteq> Num (Fin 0)"
    and "propOf imp ''secure'' \<noteq> Num (Fin 1)"
  shows "issue ''EQ-Imp-036'' Error (''BidRequest.imp['' @ digits n @ ''].secure'')
           ''imp.secure must be either 0 or 1'' (propOf imp ''secure'') (Some ''0 or 1'')
           \<in> set ys
       \<and> issue ''Core-Imp-006'' Error (''BidRequest.imp['' @ digits n @ ''].secure'')
           ''secure must be 0 or 1'' (propOf imp ''secure'') (Some ''0 or 1'') \<in> set ys"
  using assms unfolding impressionRules_def Let_def bindE_def
  by (cases "nullish imp";
      cases "if truthy (propOf imp ''video'')
             then validateVideoImpressionRules E (propOf imp ''video'') n else Inr []")
     (auto simp: when_def)

text \<open>
  C10. When the impression validator returns, then for every impression whose \<^verbatim>\<open>secure\<close>
  is present and neither 0 nor 1 its issues hold two different errors for that field,
  \<^verbatim>\<open>EQ-Imp-036\<close> and \<^verbatim>\<open>Core-Imp-006\<close>, both at the path of the impression's \<^verbatim>\<open>secure\<close>.
\<close>

theorem secure_flag_reported_twice:
  assumes "validateImpressions E bidRequest = Inr found"
    and "propOf bidRequest ''imp'' = Arr imps"
    and "k < length imps"
    and "propOf (imps ! k) ''secure'' = secure"
    and "secure \<noteq> Undefined" and "secure \<noteq> Num (Fin 0)" and "secure \<noteq> Num (Fin 1)"
  shows "issue ''EQ-Imp-036'' Error (''BidRequest.imp['' @ digits k @ ''].secure'')
           ''imp.secure must be either 0 or 1'' secure (Some ''0 or 1'') \<in> set found
       \<and> issue ''Core-Imp-006'' Error (''BidRequest.imp['' @ digits k @ ''].secure'')
           ''secure must be 0 or 1'' secure (Some ''0 or 1'') \<in> set found
       \<and> issue ''EQ-Imp-036'' Error (''BidRequest.imp['' @ digits k @ ''].secure'')
           ''imp.secure must be either 0 or 1'' secure (Some ''0 or 1'')
         \<noteq> issue ''Core-Imp-006'' Error (''BidRequest.imp['' @ digits k @ ''].secure'')
             ''secure must be 0 or 1'' secure (Some ''0 or 1'')"
proof -
  from assms(1,2) have "impressionsFrom E [] 0 imps = Inr found"
    by (simp add: validateImpressions_def Let_def split: if_splits)
  from impressionsFrom_Inr[OF this assms(3)] obtain ids' ys ids'' where
    ys: "impressionRules E ids' (imps ! k) k = Inr (ys, ids'')" "set ys \<subseteq> set found"
    by auto
  from impressionRules_secure[OF ys(1)] assms(4-7) ys(2) show ?thesis
    by (auto simp: issue_def)
qed

theorem secure_flag_reported_twice_witness:
  "\<exists>found. validateImpressions exampleEngine (Obj [(''imp'', Arr [Obj [(''secure'', Num (Fin 2))]])])
              = Inr found
     \<and> issue ''EQ-Imp-036'' Error ''BidRequest.imp[0].secure''
         ''imp.secure must be either 0 or 1'' (Num (Fin 2)) (Some ''0 or 1'') \<in> set found
     \<and> issue ''Core-Imp-006'' Error ''BidRequest.imp[0].secure''
         ''secure must be 0 or 1'' (Num (Fin 2)) (Some ''0 or 1'') \<in> set found"
proof -
  let ?imp = "Obj [(''secure'', Num (Fin 2))]"
  let ?br = "Obj [(''imp'', Arr [?imp])]"
  have "case validateImpressions exampleEngine ?br of Inl e \<Rightarrow> False | Inr found \<Rightarrow> True"
    by code_simp
  then obtain found where f: "validateImpressions exampleEngine ?br = Inr found"
    by (auto split: sum.splits)
  have i: "propOf ?br ''imp'' = Arr [?imp]" by code_simp
  have s: "propOf ([?imp] ! 0) ''secure'' = Num (Fin 2)" by code_simp
  from secure_flag_reported_twice[OF f i _ s] f show ?thesis
    by (auto simp: digits_0)
qed

subsection \<open>The empty object\<close>

lemma empty_object_parts:
  "detectBidRequestCharacteristics E (Obj [])
     = Inr \<lparr> primaryType = ''Unknown'', mediaFormats = None, platformName = None,
             deviceInfo = None, privacySignals = [], isAdPod = None, adPodDetails = None \<rparr>"
  "validateImpressions E (Obj []) = Inr []"
  "validateApp E table (Obj []) = (Inr [], table)"
  "validateSite E (Obj []) = Inr []"
  "validateDevice E (Obj []) = Inr []"
  "validateUser (Obj []) = Inr []"
  "validateRegs (Obj []) = Inr []"
  "validateSource (Obj []) = Inr []"
  "validateVideo E (Obj []) = Inr []"
  "validateNative E (Obj []) = Inr []"
  "validateBanner (Obj []) = Inr []"
  "validateCTV E (Obj []) = Inr []"
  "validateDOOH (Obj []) = Inr []"
  "validateAdvanced E (Obj []) = Inr []"
  by code_simp+

lemma empty_object_core:
  "validateCoreBidRequest E (Obj []) =
     Inr [issue ''EQ-BR-001'' Error ''BidRequest''
            ''BidRequest must contain either a site or an app object''
            Undefined (Some ''Either site or app object''),
          issue ''EQ-BR-002'' Error ''BidRequest.device''
            ''BidRequest must contain a device object''
            Undefined (Some ''Device object''),
          issue ''EQ-BR-003'' Error ''BidRequest.imp''
            ''BidRequest must contain a non-empty impression array''
            Undefined (Some ''Non-empty array of impressions''),
          issue ''EQ-BR-004'' Error ''BidRequest.source''
            ''BidRequest must contain a source object''
            Undefined (Some ''Source object''),
          issue ''EQ-BR-005'' Error ''BidRequest.user''
            ''BidRequest must contain a user object''
            Undefined (Some ''User object''),
          issue ''Core-BR-001'' Error ''BidRequest.id''
            ''BidRequest.id must be present and be a non-empty string''
            Undefined (Some ''Non-empty string''),
          issue ''Core-BR-002'' Error ''BidRequest.imp''
            ''BidRequest.imp array must be present''
            Undefined (Some ''Array of impression objects''),
          issue ''Core-BR-004'' Error ''BidRequest.at''
            ''BidRequest.at (auction type) must be present and be an integer''
            Undefined (Some ''Integer (typically 1 or 2)''),
          issue ''Core-BR-009'' Warning ''BidRequest.tmax''
            ''tmax (timeout) should be present and greater than 0''
            Undefined (Some ''Positive integer (milliseconds)'')]"
  by code_simp

lemma empty_object_equativ:
  "validateEquativRules (Obj []) =
     Inr [issue ''EQ-Source-021'' Error ''BidRequest.source.schain''
            ''source.schain must be defined'' Undefined (Some ''Supply chain object'')]"
  by code_simp

text \<open>
  C6. For the input \<^verbatim>\<open>{}\<close> the call returns a result that is not valid and whose issues
  are, in this order: the errors for neither \<^verbatim>\<open>site\<close> nor \<^verbatim>\<open>app\<close>, for the missing
  \<^verbatim>\<open>device\<close>, \<^verbatim>\<open>imp\<close>, \<^verbatim>\<open>source\<close> and \<^verbatim>\<open>user\<close>, for the missing \<^verbatim>\<open>id\<close>, again for the
  missing \<^verbatim>\<open>imp\<close>, for the missing \<^verbatim>\<open>at\<close>, the warning for \<^verbatim>\<open>tmax\<close>, and the error for the
  missing supply chain.
\<close>

theorem empty_object_errors:
  assumes "JSON_parse E ''{}'' = Some (Obj [])"
  shows "\<exists>r. fst (validateBidRequest E table ''{}'') = Inr r
     \<and> \<not> isValid r
     \<and> map (\<lambda>i. (issue_id i, severity i, fieldPath i)) (issues r)
       = [(''EQ-BR-001'', Error, ''BidRequest''),
          (''EQ-BR-002'', Error, ''BidRequest.device''),
          (''EQ-BR-003'', Error, ''BidRequest.imp''),
          (''EQ-BR-004'', Error, ''BidRequest.source''),
          (''EQ-BR-005'', Error, ''BidRequest.user''),
          (''Core-BR-001'', Error, ''BidRequest.id''),
          (''Core-BR-002'', Error, ''BidRequest.imp''),
          (''Core-BR-004'', Error, ''BidRequest.at''),
          (''Core-BR-009'', Warning, ''BidRequest.tmax''),
          (''EQ-Source-021'', Error, ''BidRequest.source.schain'')]"
  using assms
  by (simp add: validateBidRequest_def empty_object_parts empty_object_core
        empty_object_equativ issue_def)

theorem empty_object_errors_witness:
  "JSON_parse exampleEngine ''{}'' = Some (Obj [])
   \<and> (\<exists>r. fst (validateBidRequest exampleEngine STORE_URL_PATTERNS ''{}'') = Inr r
        \<and> \<not> isValid r
        \<and> map (\<lambda>i. (issue_id i, severity i, fieldPath i)) (issues r)
          = [(''EQ-BR-001'', Error, ''BidRequest''),
             (''EQ-BR-002'', Error, ''BidRequest.device''),
             (''EQ-BR-003'', Error, ''BidRequest.imp''),
             (''EQ-BR-004'', Error, ''BidRequest.source''),
             (''EQ-BR-005'', Error, ''BidRequest.user''),
             (''Core-BR-001'', Error, ''BidRequest.id''),
             (''Core-BR-002'', Error, ''BidRequest.imp''),
             (''Core-BR-004'', Error, ''BidRequest.at''),
             (''Core-BR-009'', Warning, ''BidRequest.tmax''),
             (''EQ-Source-021'', Error, ''BidRequest.source.schain'')])"
proof -
  have p: "JSON_parse exampleEngine ''{}'' = Some (Obj [])" by code_simp
  from empty_object_errors[OF p, of STORE_URL_PATTERNS] p show ?thesis by blast
qed

subsection \<open>The aspect ratio on a connected TV\<close>

lemma falsy_devicetype: "\<not> truthy v \<Longrightarrow> propOf v ''devicetype'' = Undefined"
  by (cases v rule: truthy.cases)
     (simp_all add: inherited_def objectPrototype_def numberPrototype_def stringPrototype_def)

lemma falsy_w: "\<not> truthy v \<Longrightarrow> propOf v ''w'' = Undefined"
  by (cases v rule: truthy.cases)
     (simp_all add: inherited_def objectPrototype_def numberPrototype_def stringPrototype_def)

lemma digits_640: "digits 640 = ''640''"
  by code_simp

lemma digits_480: "digits 480 = ''480''"
  by code_simp

lemma toFixed_4_3: "toFixed E (Fin (4 / 3)) 2 = ''1.33''"
  by code_simp

lemma aspect_640_480:
  "bindE (js_div E (Num (Fin 640)) (Num (Fin 480))) (\<lambda>aspectRatio.
      if num_lt (Fin (1 / 10)) (num_abs (num_sub aspectRatio (Fin (16 / 9)))) = Some True
      then bindE (ToString E (Num (Fin 640))) (\<lambda>ws. bindE (ToString E (Num (Fin 480))) (\<lambda>hs.
             Inr [issue ''EQ-CTV-053'' Error basePath msg
                    (Str (ws @ ''x'' @ hs @ '' ('' @ toFixed E aspectRatio 2 @ '':1)''))
                    ex]))
      else Inr [])
   = Inr [issue ''EQ-CTV-053'' Error basePath msg (Str ''640x480 (1.33:1)'') ex]"
  by (simp add: js_div_def ToNumber_def bindE_def num_sub_def numberToString_def
        digits_640 digits_480 toFixed_4_3)

lemma ctvVideoRules_640_480:
  assumes "ctvVideoRules E imp k = Inr ws"
    and "propOf (propOf imp ''video'') ''w'' = Num (Fin 640)"
    and "propOf (propOf imp ''video'') ''h'' = Num (Fin 480)"
  shows "issue ''EQ-CTV-053'' Error (''BidRequest.imp['' @ digits k @ ''].video'')
           ''CTV: imp.video.h and imp.video.w should match a 16:9 aspect ratio''
           (Str ''640x480 (1.33:1)'') (Some ''16:9 aspect ratio'') \<in> set ws"
proof -
  have t: "truthy (propOf imp ''video'')"
    using falsy_w[of "propOf imp ''video''"] assms(2) by auto
  from assms(1) have n: "\<not> nullish imp"
    by (auto simp: ctvVideoRules_def get_def bindE_def split: if_splits)
  from assms(1) t n assms(2,3) show ?thesis
    by (auto simp: ctvVideoRules_def get_def Let_def aspect_640_480 bindE_def[of "Inr _"]
             split: sum.splits)
qed

lemma validateCTV_640_480:
  assumes "validateCTV E br = Inr ys"
    and "propOf (propOf br ''device'') ''devicetype'' = Num (Fin 5)"
    and "propOf br ''imp'' = Arr imps" and "k < length imps"
    and "propOf (propOf (imps ! k) ''video'') ''w'' = Num (Fin 640)"
    and "propOf (propOf (imps ! k) ''video'') ''h'' = Num (Fin 480)"
  shows "issue ''EQ-CTV-053'' Error (''BidRequest.imp['' @ digits k @ ''].video'')
           ''CTV: imp.video.h and imp.video.w should match a 16:9 aspect ratio''
           (Str ''640x480 (1.33:1)'') (Some ''16:9 aspect ratio'') \<in> set ys"
proof -
  have d: "truthy (propOf br ''device'')"
    using falsy_devicetype[of "propOf br ''device''"] assms(2) by auto
  from assms(1) have n: "\<not> nullish br"
    by (auto simp: validateCTV_def split: if_splits)
  from assms(1) n d assms(2,3) obtain rs where
    s: "seqE rs = Inr ys" and m: "forEach (Arr imps) (ctvVideoRules E) \<in> set rs"
    by (simp add: validateCTV_def Let_def del: seqE.simps forEach.simps)
  from seqE_Inr_elem[OF s m] obtain zs where
    zs: "forEachFrom 0 imps (ctvVideoRules E) = Inr zs" "set zs \<subseteq> set ys" by auto
  from forEachFrom_Inr[OF zs(1) assms(4)] obtain ws where
    ws: "ctvVideoRules E (imps ! k) k = Inr ws" "set ws \<subseteq> set zs" by auto
  from ctvVideoRules_640_480[OF ws(1) assms(5,6)] ws(2) zs(2) show ?thesis by auto
qed

text \<open>
  C5, as the claim states it, fails. For a device of type 5 and one video impression of
  640 by 480 the call returns one aspect-ratio issue, and its actual value is
  \<^verbatim>\<open>640x480 (1.33:1)\<close>: the ratio reported is the width over the height; no issue of the
  result mentions \<^verbatim>\<open>0.71:1\<close>.
\<close>

theorem ctv_aspect_ratio_counterexample:
  \<open>\<exists>r. fst (validateBidRequest exampleEngine STORE_URL_PATTERNS
               ''{"device":{"devicetype":5},"imp":[{"video":{"w":640,"h":480}}]}'') = Inr r
       \<and> map actualValue (filter (\<lambda>i. issue_id i = ''EQ-CTV-053'') (issues r))
           = [Str ''640x480 (1.33:1)'']
       \<and> \<not> list_ex (\<lambda>i. strIncludes (strOf (actualValue i)) ''0.71:1'') (issues r)\<close>
proof -
  have \<open>case fst (validateBidRequest exampleEngine STORE_URL_PATTERNS
                    ''{"device":{"devicetype":5},"imp":[{"video":{"w":640,"h":480}}]}'') of
          Inl e \<Rightarrow> False
        | Inr r \<Rightarrow>
            map actualValue (filter (\<lambda>i. issue_id i = ''EQ-CTV-053'') (issues r))
              = [Str ''640x480 (1.33:1)'']
            \<and> \<not> list_ex (\<lambda>i. strIncludes (strOf (actualValue i)) ''0.71:1'') (issues r)\<close>
    by code_simp
  then show ?thesis by (auto split: sum.splits)
qed

text \<open>
  C5, amended. For a payload whose \<^verbatim>\<open>device.devicetype\<close> is 5 and whose impression \<open>k\<close> has
  a video object with \<^verbatim>\<open>w\<close> 640 and \<^verbatim>\<open>h\<close> 480, every result that the call returns holds
  the error \<^verbatim>\<open>EQ-CTV-053\<close> at the path of that video object, with the actual value
  \<^verbatim>\<open>640x480 (1.33:1)\<close> and the expected value \<^verbatim>\<open>16:9 aspect ratio\<close>.
\<close>

theorem ctv_aspect_ratio_640x480:
  assumes "fst (validateBidRequest E table s) = Inr r"
    and "JSON_parse E s = Some bidRequest"
    and "propOf (propOf bidRequest ''device'') ''devicetype'' = Num (Fin 5)"
    and "propOf bidRequest ''imp'' = Arr imps" and "k < length imps"
    and "propOf (propOf (imps ! k) ''video'') ''w'' = Num (Fin 640)"
    and "propOf (propOf (imps ! k) ''video'') ''h'' = Num (Fin 480)"
  shows "issue ''EQ-CTV-053'' Error (''BidRequest.imp['' @ digits k @ ''].video'')
           ''CTV: imp.video.h and imp.video.w should match a 16:9 aspect ratio''
           (Str ''640x480 (1.33:1)'') (Some ''16:9 aspect ratio'') \<in> set (issues r)"
proof -
  from validateBidRequest_Inr[OF assms(1)] assms(2) obtain early late where
    l: "seqE [fst (validateApp E table bidRequest), validateSite E bidRequest,
              validateDevice E bidRequest, validateUser bidRequest, validateRegs bidRequest,
              validateSource bidRequest, validateVideo E bidRequest,
              validateNative E bidRequest, validateBanner bidRequest,
              validateCTV E bidRequest, validateDOOH bidRequest,
              validateAdvanced E bidRequest, validateEquativRules bidRequest] = Inr late"
    and i: "issues r = early @ late" by auto
  from seqE_Inr_elem[OF l, of "validateCTV E bidRequest"] obtain ys where
    ys: "validateCTV E bidRequest = Inr ys" "set ys \<subseteq> set late" by auto
  from validateCTV_640_480[OF ys(1) assms(3-7)] ys(2) i show ?thesis by auto
qed

theorem ctv_aspect_ratio_640x480_witness:
  \<open>\<exists>r. fst (validateBidRequest exampleEngine STORE_URL_PATTERNS
               ''{"device":{"devicetype":5},"imp":[{"video":{"w":640,"h":480}}]}'') = Inr r
       \<and> issue ''EQ-CTV-053'' Error ''BidRequest.imp[0].video''
           ''CTV: imp.video.h and imp.video.w should match a 16:9 aspect ratio''
           (Str ''640x480 (1.33:1)'') (Some ''16:9 aspect ratio'') \<in> set (issues r)\<close>
proof -
  let ?imp = "Obj [(''video'', Obj [(''w'', Num (Fin 640)), (''h'', Num (Fin 480))])]"
  let ?br = "Obj [(''device'', Obj [(''devicetype'', Num (Fin 5))]), (''imp'', Arr [?imp])]"
  have \<open>case fst (validateBidRequest exampleEngine STORE_URL_PATTERNS
                    ''{"device":{"devicetype":5},"imp":[{"video":{"w":640,"h":480}}]}'') of
          Inl e \<Rightarrow> False | Inr r \<Rightarrow> True\<close>
    by code_simp
  then obtain r where
    r: \<open>fst (validateBidRequest exampleEngine STORE_URL_PATTERNS
               ''{"device":{"devicetype":5},"imp":[{"video":{"w":640,"h":480}}]}'') = Inr r\<close>
    by (auto split: sum.splits)
  have p: \<open>JSON_parse exampleEngine
             ''{"device":{"devicetype":5},"imp":[{"video":{"w":640,"h":480}}]}'' = Some ?br\<close>
    by code_simp
  have d: "propOf (propOf ?br ''device'') ''devicetype'' = Num (Fin 5)" by code_simp
  have i: "propOf ?br ''imp'' = Arr [?imp]" by code_simp
  have w: "propOf (propOf ([?imp] ! 0) ''video'') ''w'' = Num (Fin 640)" by code_simp
  have h: "propOf (propOf ([?imp] ! 0) ''video'') ''h'' = Num (Fin 480)" by code_simp
  from ctv_aspect_ratio_640x480[OF r p d i _ w h] r show ?thesis
    by (auto simp: digits_0)
qed

subsection \<open>Store URL and bundle\<close>

lemma falsy_storeurl: "\<not> truthy v \<Longrightarrow> propOf v ''storeurl'' = Undefined"
  by (cases v rule: truthy.cases)
     (simp_all add: inherited_def objectPrototype_def numberPrototype_def stringPrototype_def)

lemma cross_check_match:
  "validateStoreUrlAndBundle STORE_URL_PATTERNS
     ''https://apps.apple.com/us/app/id123456789'' ''123456789'' = ([], STORE_URL_PATTERNS)"
  by code_simp

lemma cross_check_mismatch:
  "validateStoreUrlAndBundle STORE_URL_PATTERNS
     ''https://apps.apple.com/us/app/id123456789'' ''999''
   = ([issue ''EQ-App-IOS-015'' Error ''BidRequest.app''
         ''Bundle ID mismatch: bundle (999) doesn't match store URL (123456789)''
         (Str ''999'') (Some ''123456789'')],
      STORE_URL_PATTERNS)"
  by code_simp

lemma crossCheck_ids:
  "map (\<lambda>(k, c). ''EQ-App-'' @ toUpperCase k @ ''-015'') STORE_URL_PATTERNS
   = [''EQ-App-IOS-015'', ''EQ-App-ANDROID-015'', ''EQ-App-ROKU-015'', ''EQ-App-AMAZON-015'',
      ''EQ-App-MICROSOFT-015'', ''EQ-App-SAMSUNG-015'', ''EQ-App-LG-015'',
      ''EQ-App-PLAYSTATION-015'', ''EQ-App-VIZIO-015'', ''EQ-App-PHILIPS-015'',
      ''EQ-App-HUAWEI-015'']"
  "map (\<lambda>(k, c). ''EQ-App-'' @ toUpperCase k @ ''-010'') STORE_URL_PATTERNS
   = [''EQ-App-IOS-010'', ''EQ-App-ANDROID-010'', ''EQ-App-ROKU-010'', ''EQ-App-AMAZON-010'',
      ''EQ-App-MICROSOFT-010'', ''EQ-App-SAMSUNG-010'', ''EQ-App-LG-010'',
      ''EQ-App-PLAYSTATION-010'', ''EQ-App-VIZIO-010'', ''EQ-App-PHILIPS-010'',
      ''EQ-App-HUAWEI-010'']"
  by code_simp+

lemma list_ex_eq_map: "list_ex (\<lambda>(k, c). i = f k) xs = (i \<in> set (map (\<lambda>(k, c). f k) xs))"
  by (induction xs) auto

lemma crossCheckId_literals:
  "crossCheckId i =
     (i \<in> set [''EQ-App-016'',
               ''EQ-App-IOS-010'', ''EQ-App-ANDROID-010'', ''EQ-App-ROKU-010'',
               ''EQ-App-AMAZON-010'', ''EQ-App-MICROSOFT-010'', ''EQ-App-SAMSUNG-010'',
               ''EQ-App-LG-010'', ''EQ-App-PLAYSTATION-010'', ''EQ-App-VIZIO-010'',
               ''EQ-App-PHILIPS-010'', ''EQ-App-HUAWEI-010'',
               ''EQ-App-IOS-015'', ''EQ-App-ANDROID-015'', ''EQ-App-ROKU-015'',
               ''EQ-App-AMAZON-015'', ''EQ-App-MICROSOFT-015'', ''EQ-App-SAMSUNG-015'',
               ''EQ-App-LG-015'', ''EQ-App-PLAYSTATION-015'', ''EQ-App-VIZIO-015'',
               ''EQ-App-PHILIPS-015'', ''EQ-App-HUAWEI-015''])"
  unfolding crossCheckId_def mismatchId_def list_ex_eq_map crossCheck_ids
  by (simp only: set_simps insert_iff empty_iff disj_assoc simp_thms)

lemma ncc_issue: "noCrossCheck [issue i sev path msg act ex] = (\<not> crossCheckId i)"
  by (simp add: noCrossCheck_def issue_def)

lemma ncc_when: "noCrossCheck (when c (issue i sev path msg act ex)) = (c \<longrightarrow> \<not> crossCheckId i)"
  by (simp add: noCrossCheck_def when_def issue_def)

lemma ncc_Nil: "noCrossCheck []"
  by (simp add: noCrossCheck_def)

lemma ncc_append: "noCrossCheck (xs @ ys) = (noCrossCheck xs \<and> noCrossCheck ys)"
  by (simp add: noCrossCheck_def)

lemma ncc_Cons: "noCrossCheck (issue i sev path msg act ex # xs) = (\<not> crossCheckId i \<and> noCrossCheck xs)"
  by (simp add: noCrossCheck_def issue_def)

lemmas ncc = ncc_Nil ncc_append ncc_when ncc_Cons crossCheckId_literals

lemma seqE_ncc:
  "seqE rs = Inr xs \<Longrightarrow> (\<And>ys. Inr ys \<in> set rs \<Longrightarrow> noCrossCheck ys) \<Longrightarrow> noCrossCheck xs"
proof (induction rs arbitrary: xs)
  case Nil
  then show ?case by (simp add: ncc_Nil)
next
  case (Cons a rs)
  from Cons.prems(1) obtain as bs where
    h: "a = Inr as" "seqE rs = Inr bs" "xs = as @ bs"
    by (auto split: sum.splits)
  have "noCrossCheck as" using Cons.prems(2)[of as] h(1) by simp
  moreover have "noCrossCheck bs" using Cons.IH[OF h(2)] Cons.prems(2) by simp
  ultimately show ?case using h(3) by (simp add: ncc_append)
qed

lemma forEachFrom_ncc:
  "forEachFrom i xs f = Inr zs \<Longrightarrow> (\<And>x j ys. f x j = Inr ys \<Longrightarrow> noCrossCheck ys)
     \<Longrightarrow> noCrossCheck zs"
proof (induction xs arbitrary: i zs)
  case Nil
  then show ?case by (simp add: ncc_Nil)
next
  case (Cons x xs)
  from Cons.prems(1) obtain ys ws where
    h: "f x i = Inr ys" "forEachFrom (Suc i) xs f = Inr ws" "zs = ys @ ws"
    by (auto split: sum.splits)
  from Cons.prems(2)[OF h(1)] Cons.IH[OF h(2)] Cons.prems(2) h(3) show ?case
    by (simp add: ncc_append)
qed

lemma forEach_ncc:
  "forEach v f = Inr zs \<Longrightarrow> (\<And>x j ys. f x j = Inr ys \<Longrightarrow> noCrossCheck ys)
     \<Longrightarrow> noCrossCheck zs"
  by (cases v) (auto dest: forEachFrom_ncc)

lemma whenE_ncc:
  "whenE c (issue i sev path msg act ex) = Inr ys \<Longrightarrow> \<not> crossCheckId i \<Longrightarrow> noCrossCheck ys"
  by (auto simp: whenE_def bindE_def ncc_when split: sum.splits)

lemma validateUser_ncc: "validateUser br = Inr ys \<Longrightarrow> noCrossCheck ys"
  by (auto simp: validateUser_def Let_def ncc split: if_splits)

lemma validateRegs_ncc: "validateRegs br = Inr ys \<Longrightarrow> noCrossCheck ys"
  by (auto simp: validateRegs_def Let_def ncc split: if_splits)

lemma validateEquativRules_ncc: "validateEquativRules br = Inr ys \<Longrightarrow> noCrossCheck ys"
  by (auto simp: validateEquativRules_def Let_def ncc split: if_splits)

lemma validateSite_ncc: "validateSite E br = Inr ys \<Longrightarrow> noCrossCheck ys"
  by (auto simp: validateSite_def Let_def ncc split: if_splits)

lemma validateCoreBidRequest_ncc: "validateCoreBidRequest E br = Inr ys \<Longrightarrow> noCrossCheck ys"
  by (auto simp: validateCoreBidRequest_def Let_def bindE_def ncc split: if_splits sum.splits)

lemma validateCountryDatacenterMatch_ncc:
  "validateCountryDatacenterMatch E c d = Inr ys \<Longrightarrow> noCrossCheck ys"
  by (auto simp: validateCountryDatacenterMatch_def Let_def bindE_def ncc
           split: if_splits sum.splits option.splits)

lemma validateDevice_ncc: "validateDevice E br = Inr ys \<Longrightarrow> noCrossCheck ys"
  apply (cases "nullish br"; cases "truthy (propOf br ''device'')")
     apply (simp_all add: validateDevice_def Let_def ncc_Nil del: seqE.simps)
  apply (erule seqE_ncc)
  apply (simp only: list.set insert_iff empty_iff)
  apply (elim disjE)
  apply (auto simp: ncc whenE_def notE_def bindE_def
              dest: validateCountryDatacenterMatch_ncc[OF sym]
              split: if_splits sum.splits)
  done

lemma validateVideoImpressionRules_ncc:
  "validateVideoImpressionRules E video n = Inr ys \<Longrightarrow> noCrossCheck ys"
  apply (cases "nullish video")
   apply (simp_all add: validateVideoImpressionRules_def Let_def del: seqE.simps)
  apply (erule seqE_ncc)
  apply (simp only: list.set insert_iff empty_iff)
  apply (elim disjE)
  apply (auto simp: ncc whenE_def notE_def bindE_def split: if_splits sum.splits)
  done

lemma impressionRules_ncc:
  "impressionRules E ids imp n = Inr (ys, ids') \<Longrightarrow> noCrossCheck ys"
  unfolding impressionRules_def Let_def bindE_def
  by (cases "nullish imp";
      cases "if truthy (propOf imp ''video'')
             then validateVideoImpressionRules E (propOf imp ''video'') n else Inr []")
     (auto simp: ncc dest: validateVideoImpressionRules_ncc split: if_splits)

lemma impressionsFrom_ncc:
  "impressionsFrom E ids i xs = Inr found \<Longrightarrow> noCrossCheck found"
proof (induction xs arbitrary: ids i found)
  case Nil
  then show ?case by (simp add: ncc_Nil)
next
  case (Cons x xs)
  from Cons.prems obtain ys ids1 zs where
    h: "impressionRules E ids x i = Inr (ys, ids1)"
       "impressionsFrom E ids1 (Suc i) xs = Inr zs" "found = ys @ zs"
    by (auto split: sum.splits prod.splits)
  from impressionRules_ncc[OF h(1)] Cons.IH[OF h(2)] h(3) show ?case
    by (simp add: ncc_append)
qed

lemma validateImpressions_ncc: "validateImpressions E br = Inr ys \<Longrightarrow> noCrossCheck ys"
  by (auto simp: validateImpressions_def Let_def ncc_Nil dest: impressionsFrom_ncc
           split: if_splits)

lemma nodeRules_ncc: "nodeRules node n = Inr ys \<Longrightarrow> noCrossCheck ys"
  by (auto simp: nodeRules_def ncc split: if_splits)

lemma validateSource_ncc: "validateSource br = Inr ys \<Longrightarrow> noCrossCheck ys"
  apply (cases "nullish br"; cases "truthy (propOf br ''source'')";
         cases "truthy (propOf (propOf br ''source'') ''schain'')")
         apply (simp_all add: validateSource_def Let_def ncc_Nil del: seqE.simps)
   apply (erule seqE_ncc)
   apply (simp only: list.set insert_iff empty_iff)
   apply (elim disjE)
    apply (auto simp: ncc dest: forEach_ncc[OF sym, OF _ nodeRules_ncc] split: if_splits)
  done

lemma videoRules_ncc: "videoRules E imp n = Inr ys \<Longrightarrow> noCrossCheck ys"
  apply (cases "nullish imp"; cases "truthy (propOf imp ''video'')")
     apply (simp_all add: videoRules_def get_def bindE_def Let_def ncc_Nil del: seqE.simps)
  apply (erule seqE_ncc)
  apply (simp only: list.set insert_iff empty_iff)
  apply (elim disjE)
  apply (auto simp: ncc bindE_def split: if_splits sum.splits)
  done

lemma validateVideo_ncc: "validateVideo E br = Inr ys \<Longrightarrow> noCrossCheck ys"
  by (auto simp: validateVideo_def Let_def ncc_Nil dest: forEach_ncc[OF _ videoRules_ncc]
           split: if_splits)

lemma assetRules_ncc: "assetRules bp i xs = (ys, c) \<Longrightarrow> noCrossCheck ys"
proof (induction xs arbitrary: i ys c)
  case Nil
  then show ?case by (simp add: ncc_Nil)
next
  case (Cons x xs)
  show ?case
  proof (cases "nullish x")
    case True
    with Cons.prems show ?thesis by (simp add: ncc_Nil)
  next
    case False
    obtain rest c' where r: "assetRules bp (Suc i) xs = (rest, c')"
      by (cases "assetRules bp (Suc i) xs")
    from Cons.IH[OF r] Cons.prems False r show ?thesis
      by (auto simp: ncc)
  qed
qed

lemma nativeRules_ncc: "nativeRules E imp n = Inr ys \<Longrightarrow> noCrossCheck ys"
  by (auto simp: nativeRules_def get_def bindE_def Let_def ncc dest: assetRules_ncc
           split: if_splits option.splits prod.splits)

lemma validateNative_ncc: "validateNative E br = Inr ys \<Longrightarrow> noCrossCheck ys"
  by (auto simp: validateNative_def Let_def ncc_Nil dest: forEach_ncc[OF _ nativeRules_ncc]
           split: if_splits)

lemma formatRules_ncc: "formatRules bp f n = Inr ys \<Longrightarrow> noCrossCheck ys"
  by (auto simp: formatRules_def ncc split: if_splits)

lemma bannerRules_ncc: "bannerRules imp n = Inr ys \<Longrightarrow> noCrossCheck ys"
  apply (cases "nullish imp"; cases "truthy (propOf imp ''banner'')")
     apply (simp_all add: bannerRules_def get_def bindE_def Let_def ncc_Nil del: seqE.simps)
  apply (erule seqE_ncc)
  apply (simp only: list.set insert_iff empty_iff)
  apply (elim disjE)
   apply (auto simp: ncc dest: forEach_ncc[OF sym, OF _ formatRules_ncc] split: if_splits)
  done

lemma validateBanner_ncc: "validateBanner br = Inr ys \<Longrightarrow> noCrossCheck ys"
  by (auto simp: validateBanner_def Let_def ncc_Nil dest: forEach_ncc[OF _ bannerRules_ncc]
           split: if_splits)

lemma ctvVideoRules_ncc: "ctvVideoRules E imp n = Inr ys \<Longrightarrow> noCrossCheck ys"
  apply (cases "nullish imp"; cases "truthy (propOf imp ''video'')")
     apply (simp_all add: ctvVideoRules_def get_def bindE_def Let_def ncc_Nil del: seqE.simps)
  apply (erule seqE_ncc)
  apply (simp only: list.set insert_iff empty_iff)
  apply (elim disjE)
   apply (auto simp: ncc bindE_def split: if_splits sum.splits)
  done

lemma ctvVideoRequirements_ncc: "ctvVideoRequirements imp n = Inr ys \<Longrightarrow> noCrossCheck ys"
  by (auto simp: ctvVideoRequirements_def get_def bindE_def Let_def ncc split: if_splits)

lemma validateCTV_ncc: "validateCTV E br = Inr ys \<Longrightarrow> noCrossCheck ys"
  apply (cases "nullish br";
         cases "\<not> truthy (propOf br ''device'')
                \<or> propOf (propOf br ''device'') ''devicetype'' \<noteq> Num (Fin 5)")
     apply (simp_all add: validateCTV_def Let_def ncc_Nil del: seqE.simps)
  apply (erule seqE_ncc)
  apply (simp only: list.set insert_iff empty_iff)
  apply (elim disjE)
        apply (auto simp: ncc whenE_def notE_def bindE_def
                    dest: forEach_ncc[OF sym, OF _ ctvVideoRules_ncc]
                          forEach_ncc[OF sym, OF _ ctvVideoRequirements_ncc]
                    split: if_splits sum.splits)
  done

lemma doohRules_ncc: "doohRules d n = Inr ys \<Longrightarrow> noCrossCheck ys"
  by (auto simp: doohRules_def ncc split: if_splits)

lemma validateDOOH_ncc: "validateDOOH br = Inr ys \<Longrightarrow> noCrossCheck ys"
  by (auto simp: validateDOOH_def Let_def bindE_def ncc
           simp del: forEach.simps
           dest: forEach_ncc[OF _ doohRules_ncc]
           split: if_splits sum.splits)

lemma uidRules_ncc: "uidRules k uid n = Inr ys \<Longrightarrow> noCrossCheck ys"
  by (auto simp: uidRules_def ncc split: if_splits)

lemma eidRules_ncc: "eidRules eid n = Inr ys \<Longrightarrow> noCrossCheck ys"
  by (auto simp: eidRules_def ncc dest: forEach_ncc[OF _ uidRules_ncc] split: if_splits)

lemma validateAdvanced_ncc: "validateAdvanced E br = Inr ys \<Longrightarrow> noCrossCheck ys"
  apply (cases "JSON_stringify E br"; cases "nullish br")
     apply (simp_all add: validateAdvanced_def Let_def ncc_Nil del: seqE.simps)
  apply (erule seqE_ncc)
  apply (simp only: list.set insert_iff empty_iff)
  apply (elim disjE)
     apply (auto simp: ncc dest: forEach_ncc[OF sym, OF _ eidRules_ncc] split: if_splits)
  done

lemma mismatchId_ios: "mismatchId ''EQ-App-IOS-015''"
  by code_simp

lemma validateApp_match:
  assumes "propOf (propOf bidRequest ''app'') ''storeurl''
             = Str ''https://apps.apple.com/us/app/id123456789''"
    and "propOf (propOf bidRequest ''app'') ''bundle'' = Str ''123456789''"
    and "fst (validateApp E STORE_URL_PATTERNS bidRequest) = Inr found"
  shows "noCrossCheck found"
proof -
  have t: "truthy (propOf bidRequest ''app'')"
    using falsy_storeurl[of "propOf bidRequest ''app''"] assms(1) by auto
  have n: "\<not> nullish bidRequest"
    using t by (cases bidRequest) auto
  from assms t n show ?thesis
    by (auto simp: validateApp_def Let_def cross_check_match ncc)
qed

lemma validateApp_mismatch:
  assumes "propOf (propOf bidRequest ''app'') ''storeurl''
             = Str ''https://apps.apple.com/us/app/id123456789''"
    and "propOf (propOf bidRequest ''app'') ''bundle'' = Str ''999''"
    and "fst (validateApp E STORE_URL_PATTERNS bidRequest) = Inr found"
  shows "issue ''EQ-App-IOS-015'' Error ''BidRequest.app''
           ''Bundle ID mismatch: bundle (999) doesn't match store URL (123456789)''
           (Str ''999'') (Some ''123456789'') \<in> set found"
proof -
  have t: "truthy (propOf bidRequest ''app'')"
    using falsy_storeurl[of "propOf bidRequest ''app''"] assms(1) by auto
  have n: "\<not> nullish bidRequest"
    using t by (cases bidRequest) auto
  from assms t n show ?thesis
    by (auto simp: validateApp_def Let_def cross_check_mismatch)
qed

lemma others_ncc:
  assumes "seqE [validateCoreBidRequest E br, validateImpressions E br] = Inr early"
    and "seqE [a, validateSite E br, validateDevice E br,
               validateUser br, validateRegs br, validateSource br, validateVideo E br,
               validateNative E br, validateBanner br, validateCTV E br, validateDOOH br,
               validateAdvanced E br, validateEquativRules br] = Inr late"
    and "\<And>found. a = Inr found \<Longrightarrow> noCrossCheck found"
  shows "noCrossCheck (early @ late)"
proof -
  have "noCrossCheck early"
    by (rule seqE_ncc[OF assms(1)])
       (auto dest: validateCoreBidRequest_ncc[OF sym] validateImpressions_ncc[OF sym])
  moreover have "noCrossCheck late"
    by (rule seqE_ncc[OF assms(2)])
       (auto intro: assms(3) dest: assms(3)[OF sym] validateSite_ncc[OF sym]
          validateDevice_ncc[OF sym]
          validateUser_ncc[OF sym] validateRegs_ncc[OF sym] validateSource_ncc[OF sym]
          validateVideo_ncc[OF sym] validateNative_ncc[OF sym] validateBanner_ncc[OF sym]
          validateCTV_ncc[OF sym] validateDOOH_ncc[OF sym] validateAdvanced_ncc[OF sym]
          validateEquativRules_ncc[OF sym])
  ultimately show ?thesis by (simp add: ncc_append)
qed

text \<open>
  C7. For a payload whose \<^verbatim>\<open>app.storeurl\<close> is
  \<^verbatim>\<open>https://apps.apple.com/us/app/id123456789\<close>, whenever \<open>validateBidRequest\<close> returns a
  result: with the bundle \<^verbatim>\<open>123456789\<close> no issue of the result comes from the cross-check
  of store URL and bundle, in particular none is a bundle-mismatch issue; with the bundle
  \<^verbatim>\<open>999\<close> the result holds the bundle-mismatch error \<^verbatim>\<open>EQ-App-IOS-015\<close>, whose message
  and values name the bundle \<^verbatim>\<open>999\<close> and the identifier \<^verbatim>\<open>123456789\<close> taken from the URL.
\<close>

theorem store_url_bundle_cross_check:
  assumes "JSON_parse E s = Some bidRequest"
    and "propOf (propOf bidRequest ''app'') ''storeurl''
           = Str ''https://apps.apple.com/us/app/id123456789''"
    and "propOf (propOf bidRequest ''app'') ''bundle'' = Str bundle"
    and "fst (validateBidRequest E STORE_URL_PATTERNS s) = Inr r"
  shows "(bundle = ''123456789'' \<longrightarrow> noCrossCheck (issues r))
       \<and> (bundle = ''999'' \<longrightarrow>
            mismatchId ''EQ-App-IOS-015''
          \<and> issue ''EQ-App-IOS-015'' Error ''BidRequest.app''
              ''Bundle ID mismatch: bundle (999) doesn't match store URL (123456789)''
              (Str ''999'') (Some ''123456789'') \<in> set (issues r))"
proof -
  from validateBidRequest_Inr[OF assms(4)] assms(1) obtain early late where
    e: "seqE [validateCoreBidRequest E bidRequest, validateImpressions E bidRequest] = Inr early"
    and l: "seqE [fst (validateApp E STORE_URL_PATTERNS bidRequest), validateSite E bidRequest,
                  validateDevice E bidRequest, validateUser bidRequest, validateRegs bidRequest,
                  validateSource bidRequest, validateVideo E bidRequest,
                  validateNative E bidRequest, validateBanner bidRequest,
                  validateCTV E bidRequest, validateDOOH bidRequest,
                  validateAdvanced E bidRequest, validateEquativRules bidRequest] = Inr late"
    and i: "issues r = early @ late"
    by auto
  show ?thesis
  proof (intro conjI impI)
    assume b: "bundle = ''123456789''"
    show "noCrossCheck (issues r)"
      unfolding i using e l
    proof (rule others_ncc)
      fix found
      assume "fst (validateApp E STORE_URL_PATTERNS bidRequest) = Inr found"
      with assms(2,3) b show "noCrossCheck found"
        by (auto intro: validateApp_match)
    qed
  next
    assume b: "bundle = ''999''"
    show "mismatchId ''EQ-App-IOS-015''" by (rule mismatchId_ios)
    from seqE_Inr_elem[OF l, of "fst (validateApp E STORE_URL_PATTERNS bidRequest)"]
    obtain found where
      f: "fst (validateApp E STORE_URL_PATTERNS bidRequest) = Inr found"
         "set found \<subseteq> set late"
      by auto
    from validateApp_mismatch[OF assms(2) _ f(1)] assms(3) b f(2) i
    show "issue ''EQ-App-IOS-015'' Error ''BidRequest.app''
              ''Bundle ID mismatch: bundle (999) doesn't match store URL (123456789)''
              (Str ''999'') (Some ''123456789'') \<in> set (issues r)"
      by auto
  qed
qed

theorem store_url_bundle_cross_check_witness:
  \<open>\<exists>r r'.
      fst (validateBidRequest exampleEngine STORE_URL_PATTERNS
        ''{"app":{"storeurl":"https://apps.apple.com/us/app/id123456789","bundle":"123456789"}}'')
        = Inr r
    \<and> noCrossCheck (issues r)
    \<and> fst (validateBidRequest exampleEngine STORE_URL_PATTERNS
        ''{"app":{"storeurl":"https://apps.apple.com/us/app/id123456789","bundle":"999"}}'')
        = Inr r'
    \<and> issue ''EQ-App-IOS-015'' Error ''BidRequest.app''
          ''Bundle ID mismatch: bundle (999) doesn't match store URL (123456789)''
          (Str ''999'') (Some ''123456789'') \<in> set (issues r')\<close>
proof -
  let ?s = \<open>''{"app":{"storeurl":"https://apps.apple.com/us/app/id123456789","bundle":"123456789"}}''\<close>
  let ?s' = \<open>''{"app":{"storeurl":"https://apps.apple.com/us/app/id123456789","bundle":"999"}}''\<close>
  let ?br = "Obj [(''app'', Obj [(''storeurl'', Str ''https://apps.apple.com/us/app/id123456789''),
                                 (''bundle'', Str ''123456789'')])]"
  let ?br' = "Obj [(''app'', Obj [(''storeurl'', Str ''https://apps.apple.com/us/app/id123456789''),
                                  (''bundle'', Str ''999'')])]"
  have "case fst (validateBidRequest exampleEngine STORE_URL_PATTERNS ?s) of
          Inl e \<Rightarrow> False | Inr r \<Rightarrow> True"
    by code_simp
  then obtain r where r: "fst (validateBidRequest exampleEngine STORE_URL_PATTERNS ?s) = Inr r"
    by (auto split: sum.splits)
  have "case fst (validateBidRequest exampleEngine STORE_URL_PATTERNS ?s') of
          Inl e \<Rightarrow> False | Inr r \<Rightarrow> True"
    by code_simp
  then obtain r' where r': "fst (validateBidRequest exampleEngine STORE_URL_PATTERNS ?s') = Inr r'"
    by (auto split: sum.splits)
  have p: "JSON_parse exampleEngine ?s = Some ?br" by code_simp
  have p': "JSON_parse exampleEngine ?s' = Some ?br'" by code_simp
  have u: "propOf (propOf ?br ''app'') ''storeurl''
             = Str ''https://apps.apple.com/us/app/id123456789''" by code_simp
  have u': "propOf (propOf ?br' ''app'') ''storeurl''
             = Str ''https://apps.apple.com/us/app/id123456789''" by code_simp
  have b: "propOf (propOf ?br ''app'') ''bundle'' = Str ''123456789''" by code_simp
  have b': "propOf (propOf ?br' ''app'') ''bundle'' = Str ''999''" by code_simp
  from store_url_bundle_cross_check[OF p u b r] store_url_bundle_cross_check[OF p' u' b' r'] r r'
  show ?thesis by auto
qed

end
